theory Spec2Isabelle
  imports Complex_Main "HOL-Library.Sublist"
begin

section \<open>Exceptions and programs that may raise\<close>

text \<open>
  The Python exceptions that \<open>model.py\<close> raises or catches.  \<open>KeyboardInterrupt\<close> and
  \<open>SystemExit\<close> derive from \<open>BaseException\<close> only; every other constructor is a
  subclass of \<open>Exception\<close>, which is what \<open>except Exception\<close> matches.
\<close>

datatype py_exn =
    KeyboardInterrupt
  | SystemExit
  | AssertionError string
  | ZeroDivisionError
  | ValueError string
  | AttributeError string
  | RuntimeError string

fun is_Exception :: "py_exn \<Rightarrow> bool" where
  "is_Exception KeyboardInterrupt = False"
| "is_Exception SystemExit = False"
| "is_Exception (AssertionError m) = True"
| "is_Exception ZeroDivisionError = True"
| "is_Exception (ValueError m) = True"
| "is_Exception (AttributeError m) = True"
| "is_Exception (RuntimeError m) = True"

text \<open>
  A statement sequence over a state \<open>'s\<close>: it returns a value or raises, and in both cases
  leaves a state behind.
\<close>

type_synonym ('s, 'a) prog = "'s \<Rightarrow> (py_exn + 'a) \<times> 's"

definition pret :: "'a \<Rightarrow> ('s, 'a) prog" where
  "pret x = (\<lambda>s. (Inr x, s))"

definition praise :: "py_exn \<Rightarrow> ('s, 'a) prog" where
  "praise e = (\<lambda>s. (Inl e, s))"

definition pbind :: "('s, 'a) prog \<Rightarrow> ('a \<Rightarrow> ('s, 'b) prog) \<Rightarrow> ('s, 'b) prog" where
  "pbind m f = (\<lambda>s. case m s of (Inl e, s') \<Rightarrow> (Inl e, s') | (Inr x, s') \<Rightarrow> f x s')"

definition pthen :: "('s, 'a) prog \<Rightarrow> ('s, 'b) prog \<Rightarrow> ('s, 'b) prog" where
  "pthen m n = pbind m (\<lambda>_. n)"

definition pwhen :: "bool \<Rightarrow> ('s, unit) prog \<Rightarrow> ('s, unit) prog" where
  "pwhen b m = (if b then m else pret ())"

text \<open>\<open>try: m except ...: h\<close>; the handler re-raises what no clause matches.\<close>

definition try_except :: "('s, 'a) prog \<Rightarrow> (py_exn \<Rightarrow> ('s, 'a) prog) \<Rightarrow> ('s, 'a) prog" where
  "try_except m h = (\<lambda>s. case m s of (Inl e, s') \<Rightarrow> h e s' | (Inr x, s') \<Rightarrow> (Inr x, s'))"

text \<open>
  \<open>try: m finally: fin\<close>: \<open>fin\<close> runs whatever \<open>m\<close> did; the outcome of \<open>m\<close> is kept unless
  \<open>fin\<close> itself raises.
\<close>

definition try_finally :: "('s, 'a) prog \<Rightarrow> ('s, unit) prog \<Rightarrow> ('s, 'a) prog" where
  "try_finally m fin =
     (\<lambda>s. case m s of (r, s') \<Rightarrow>
        (case fin s' of (Inl e, s'') \<Rightarrow> (Inl e, s'') | (Inr _, s'') \<Rightarrow> (r, s'')))"

text \<open>\<open>for i in xs: body(i)\<close>, left at the first exception.\<close>

fun for_each :: "('i \<Rightarrow> ('s, unit) prog) \<Rightarrow> 'i list \<Rightarrow> ('s, unit) prog" where
  "for_each body [] s = (Inr (), s)"
| "for_each body (i # is) s =
     (case body i s of (Inl e, s') \<Rightarrow> (Inl e, s') | (Inr _, s') \<Rightarrow> for_each body is s')"

text \<open>\<open>range(n)\<close> on a Python int: empty when \<open>n \<le> 0\<close>.\<close>

definition py_range :: "int \<Rightarrow> nat list" where
  "py_range n = [0..<nat n]"

text \<open>
  \<open>np.mod\<close> on integers: the sign follows the divisor, as \<open>mod\<close> on \<open>int\<close> does, and a
  zero divisor gives 0 (with a warning) where HOL would return the dividend.
\<close>

definition np_mod :: "int \<Rightarrow> int \<Rightarrow> int" where
  "np_mod a b = (if b = 0 then 0 else a mod b)"

section \<open>Construction: \<open>DCGAN.__init__\<close>\<close>

record dcgan_args =
  batch_size :: nat
  sample_num :: nat
  output_height :: nat
  output_width :: nat
  y_dim :: "nat option"
  c_dim :: nat
  gan_method :: string
  lipschitz_penalty :: real
  gradient_penalty :: real
  optimize_penalty :: bool
  calculate_slope :: bool
  discriminator_batch_norm :: bool
  load_checkpoint :: bool
  counter_start :: int
  fid_n_samples :: int
  fid_sample_batchsize :: nat
  num_discriminator_updates :: int

definition gan_methods :: "string list" where
  "gan_methods = [''penalized_wgan'', ''improved_wgan'', ''regular_gan'']"

text \<open>The four \<open>assert\<close> statements that open \<open>__init__\<close>, in the order of the source.\<close>

definition check_args :: "dcgan_args \<Rightarrow> py_exn + unit" where
  "check_args a =
     (if \<not> lipschitz_penalty a \<ge> 0
        then Inl (AssertionError ''the lipschitz penalty must be non-negative'')
      else if \<not> gradient_penalty a \<ge> 0
        then Inl (AssertionError ''the lipschitz penalty must be non-negative'')
      else if \<not> gan_method a \<in> set gan_methods
        then Inl (AssertionError
          (''the gan method must be of type 'penalized_wgan', 'improved_wgan' or 'regular_gan', not ''
             @ gan_method a))
      else if \<not> num_discriminator_updates a \<ge> 1
        then Inl (AssertionError ''num_discriminator_updates must be at least 1'')
      else Inr ())"

subsection \<open>The end of \<open>build_model\<close>: the number of FID samples\<close>

text \<open>
  \<open>if not (n % b == 0): n = (n // b) * b; print(warning)\<close>.  Python's \<open>%\<close> and \<open>//\<close> on
  ints are floor division, as \<open>mod\<close> and \<open>div\<close> on \<open>int\<close>; a zero divisor raises.  The
  result is the new \<open>fid_n_samples\<close> and what was printed.
\<close>

definition fid_warning :: "int \<Rightarrow> int \<Rightarrow> string list" where
  "fid_warning n_old n_new = [''!WARNING: fid_sample_batchsize is not a multiple of fid_n_samples.'']"

definition adjust_fid_n_samples :: "int \<Rightarrow> nat \<Rightarrow> py_exn + (int \<times> string list)" where
  "adjust_fid_n_samples n b =
     (if b = 0 then Inl ZeroDivisionError
      else if \<not> (n mod int b = 0) then
        (let new_bs = n div int b;
             n_old = n;
             n' = new_bs * int b
         in Inr (n', fid_warning n_old n'))
      else Inr (n, []))"

section \<open>Tensors\<close>

text \<open>
  A tensor is its static shape and its entries.  Entries are reals: the model follows the
  arithmetic the graph denotes, not the rounding of 32-bit floats.  An index outside the
  shape is never read by a well-shaped graph.
\<close>

record 'a tensor =
  shape :: "nat list"
  elem :: "nat list \<Rightarrow> 'a"

definition nth0 :: "nat list \<Rightarrow> nat \<Rightarrow> nat" where
  "nth0 i k = (if k < length i then i ! k else 0)"

definition scalar :: "'a \<Rightarrow> 'a tensor" where
  "scalar c = \<lparr>shape = [], elem = (\<lambda>_. c)\<rparr>"

definition tmap :: "('a \<Rightarrow> 'b) \<Rightarrow> 'a tensor \<Rightarrow> 'b tensor" where
  "tmap f x = \<lparr>shape = shape x, elem = (\<lambda>i. f (elem x i))\<rparr>"

definition ones_like :: "real tensor \<Rightarrow> real tensor" where
  "ones_like x = tmap (\<lambda>_. 1) x"

definition zeros_like :: "real tensor \<Rightarrow> real tensor" where
  "zeros_like x = tmap (\<lambda>_. 0) x"

definition ebind :: "py_exn + 'a \<Rightarrow> ('a \<Rightarrow> py_exn + 'b) \<Rightarrow> py_exn + 'b" where
  "ebind m f = (case m of Inl e \<Rightarrow> Inl e | Inr x \<Rightarrow> f x)"

subsection \<open>Broadcasting\<close>

text \<open>
  Shapes are aligned at their last dimension; two dimensions are compatible when they are
  equal or one of them is 1.  The entry of the result at index \<open>i\<close> reads each operand at
  \<open>bindex\<close> of its shape: the leading dimensions the operand lacks are dropped and its
  dimensions of size 1 are read at 0.
\<close>

definition bdim :: "nat \<Rightarrow> nat \<Rightarrow> nat option" where
  "bdim x y = (if x = y then Some x else if x = 1 then Some y else if y = 1 then Some x else None)"

fun bshape_rev :: "nat list \<Rightarrow> nat list \<Rightarrow> nat list option" where
  "bshape_rev [] ys = Some ys"
| "bshape_rev (x # xs) [] = Some (x # xs)"
| "bshape_rev (x # xs) (y # ys) =
     (case bdim x y of None \<Rightarrow> None
      | Some d \<Rightarrow> (case bshape_rev xs ys of None \<Rightarrow> None | Some ds \<Rightarrow> Some (d # ds)))"

definition broadcast_shape :: "nat list \<Rightarrow> nat list \<Rightarrow> nat list option" where
  "broadcast_shape a b = map_option rev (bshape_rev (rev a) (rev b))"

definition bindex :: "nat list \<Rightarrow> nat list \<Rightarrow> nat list" where
  "bindex shp i = map2 (\<lambda>d j. if d = 1 then 0 else j) shp (drop (length i - length shp) i)"

definition binop :: "('a \<Rightarrow> 'b \<Rightarrow> 'c) \<Rightarrow> 'a tensor \<Rightarrow> 'b tensor \<Rightarrow> py_exn + 'c tensor" where
  "binop f a b =
     (case broadcast_shape (shape a) (shape b) of
        None \<Rightarrow> Inl (ValueError ''Dimensions must be equal'')
      | Some s \<Rightarrow>
          Inr \<lparr>shape = s, elem = (\<lambda>i. f (elem a (bindex (shape a) i)) (elem b (bindex (shape b) i)))\<rparr>)"

text \<open>\<open>tf.where(c, x, y)\<close> on three tensors of one shape.\<close>

definition tf_where :: "bool tensor \<Rightarrow> 'a tensor \<Rightarrow> 'a tensor \<Rightarrow> py_exn + 'a tensor" where
  "tf_where c x y =
     (if shape c = shape x \<and> shape x = shape y
      then Inr \<lparr>shape = shape x, elem = (\<lambda>i. if elem c i then elem x i else elem y i)\<rparr>
      else Inl (ValueError ''Shapes must be equal''))"

subsection \<open>Squeeze, reshape, slices and reductions\<close>

fun unsqueeze_index :: "nat list \<Rightarrow> nat list \<Rightarrow> nat list" where
  "unsqueeze_index [] i = []"
| "unsqueeze_index (d # ds) i =
     (if d = 1 then 0 # unsqueeze_index ds i
      else (case i of [] \<Rightarrow> 0 # unsqueeze_index ds [] | j # js \<Rightarrow> j # unsqueeze_index ds js))"

text \<open>\<open>tf.squeeze\<close> removes every dimension of size 1.\<close>

definition squeeze :: "'a tensor \<Rightarrow> 'a tensor" where
  "squeeze x = \<lparr>shape = filter (\<lambda>d. d \<noteq> 1) (shape x),
                elem = (\<lambda>i. elem x (unsqueeze_index (shape x) i))\<rparr>"

fun flat_index :: "nat list \<Rightarrow> nat list \<Rightarrow> nat" where
  "flat_index (d # ds) (i # is) = i * prod_list ds + flat_index ds is"
| "flat_index ds is = 0"

fun unflat_index :: "nat list \<Rightarrow> nat \<Rightarrow> nat list" where
  "unflat_index [] n = []"
| "unflat_index (d # ds) n = (n div prod_list ds) # unflat_index ds (n mod prod_list ds)"

definition reshape :: "'a tensor \<Rightarrow> nat list \<Rightarrow> py_exn + 'a tensor" where
  "reshape x new =
     (if prod_list new = prod_list (shape x)
      then Inr \<lparr>shape = new, elem = (\<lambda>i. elem x (unflat_index (shape x) (flat_index new i)))\<rparr>
      else Inl (ValueError ''Cannot reshape''))"

text \<open>The slice \<open>x[b]\<close> that \<open>tf.map_fn\<close> hands to its function.\<close>

definition row :: "'a tensor \<Rightarrow> nat \<Rightarrow> 'a tensor" where
  "row x b = \<lparr>shape = tl (shape x), elem = (\<lambda>j. elem x (b # j))\<rparr>"

fun indices :: "nat list \<Rightarrow> nat list list" where
  "indices [] = [[]]"
| "indices (d # ds) = concat (map (\<lambda>i. map ((#) i) (indices ds)) [0..<d])"

text \<open>\<open>tf.reduce_sum(x, axis=[1,2,3])\<close> on a batch of images.\<close>

definition reduce_sum_123 :: "real tensor \<Rightarrow> py_exn + real tensor" where
  "reduce_sum_123 x =
     (if length (shape x) = 4
      then Inr \<lparr>shape = [hd (shape x)],
                elem = (\<lambda>i. sum_list (map (\<lambda>j. elem x (nth0 i 0 # j)) (indices (tl (shape x)))))\<rparr>
      else Inl (ValueError ''Invalid reduction dimension''))"

text \<open>\<open>tf.reduce_mean(x)\<close> over all axes, \<open>tf.reduce_mean(x, axis=[0])\<close> and \<open>tf.norm(x)\<close>.\<close>

definition reduce_mean :: "real tensor \<Rightarrow> real" where
  "reduce_mean x = sum_list (map (elem x) (indices (shape x))) / real (prod_list (shape x))"

definition reduce_mean_0 :: "real tensor \<Rightarrow> py_exn + real tensor" where
  "reduce_mean_0 x =
     (case shape x of
        [] \<Rightarrow> Inl (ValueError ''Invalid reduction dimension'')
      | b # rest \<Rightarrow>
          Inr \<lparr>shape = rest,
               elem = (\<lambda>j. sum_list (map (\<lambda>i. elem x (i # j)) [0..<b]) / real b)\<rparr>)"

definition tf_norm :: "real tensor \<Rightarrow> real" where
  "tf_norm x = sqrt (sum_list (map (\<lambda>i. (elem x i)\<^sup>2) (indices (shape x))))"

text \<open>The module function \<open>l2norm(x, axis=[1,2,3])\<close>.\<close>

definition l2norm :: "real tensor \<Rightarrow> py_exn + real tensor" where
  "l2norm x = ebind (reduce_sum_123 (tmap (\<lambda>v. v\<^sup>2) x)) (\<lambda>s. Inr (squeeze (tmap sqrt s)))"

text \<open>\<open>conv_out_size_same(size, stride)\<close>: the ceiling of the quotient.\<close>

definition conv_out_size_same :: "nat \<Rightarrow> nat \<Rightarrow> py_exn + nat" where
  "conv_out_size_same sz stride =
     (if stride = 0 then Inl ZeroDivisionError else Inr ((sz + stride - 1) div stride))"

section \<open>The loss and penalty graph of \<open>build_model\<close>\<close>

text \<open>
  What the graph is evaluated on in one \<open>sess.run\<close>: the batch of real images from the
  data loader, the generator's output for this step's latent batch, the discriminator's
  logit for each sample of a batch, the gradient of the logits with respect to the batch
  (\<open>tf.gradients\<close>), and the two uniform draws.  The networks' layers come from the layer
  library, which is not part of the sources; they are parameters here.
\<close>

record feed =
  inputs :: "real tensor"
  n_paths :: nat
  gen :: "nat list \<Rightarrow> real"
  disc_logit :: "real tensor \<Rightarrow> nat \<Rightarrow> real"
  disc_grad :: "real tensor \<Rightarrow> nat list \<Rightarrow> real"
  alpha_small :: "nat list \<Rightarrow> real"
  alpha_unit :: "nat list \<Rightarrow> real"

definition sigmoid :: "real \<Rightarrow> real" where
  "sigmoid x = 1 / (1 + exp (- x))"

text \<open>The last layer of \<open>generator\<close> has output shape \<open>[batch_size, s_h, s_w, c_dim]\<close>.\<close>

definition generator :: "dcgan_args \<Rightarrow> feed \<Rightarrow> real tensor" where
  "generator a fd =
     \<lparr>shape = [batch_size a, output_height a, output_width a, c_dim a], elem = gen fd\<rparr>"

text \<open>
  \<open>discriminator\<close> returns \<open>(sigmoid(h4), h4)\<close> with \<open>h4\<close> of shape \<open>[batch_size, 1]\<close>; its
  convolutions take a batch of images, of rank 4, which it reshapes to \<open>batch_size\<close> rows.
\<close>

definition discriminator ::
  "dcgan_args \<Rightarrow> feed \<Rightarrow> real tensor \<Rightarrow> py_exn + (real tensor \<times> real tensor)" where
  "discriminator a fd img =
     (if length (shape img) = 4 \<and> hd (shape img) = batch_size a
      then (let h4 = \<lparr>shape = [batch_size a, 1],
                       elem = (\<lambda>i. disc_logit fd img (nth0 i 0))\<rparr>
            in Inr (tmap sigmoid h4, h4))
      else Inl (ValueError ''discriminator: bad input shape''))"

definition tf_gradients :: "feed \<Rightarrow> real tensor \<Rightarrow> real tensor" where
  "tf_gradients fd x = \<lparr>shape = shape x, elem = disc_grad fd x\<rparr>"

definition random_uniform :: "nat list \<Rightarrow> (nat list \<Rightarrow> real) \<Rightarrow> real tensor" where
  "random_uniform shp draw = \<lparr>shape = shp, elem = draw\<rparr>"

text \<open>\<open>alpha * inputs + (1. - alpha) * G\<close>, each operator broadcasting.\<close>

definition interpolate :: "real tensor \<Rightarrow> real tensor \<Rightarrow> real tensor \<Rightarrow> py_exn + real tensor" where
  "interpolate alpha x g =
     ebind (binop (*) alpha x) (\<lambda>l.
     ebind (binop (-) (scalar 1) alpha) (\<lambda>om.
     ebind (binop (*) om g) (\<lambda>r.
     binop (+) l r)))"

record losses =
  d_loss_real :: "real option"
  d_loss_fake :: "real option"
  g_loss :: "real option"
  d_lipschitz_penalty_loss :: real
  d_gradient_penalty_loss :: real
  d_mean_slope_target :: real
  d_lipschitz_estimate :: real

text \<open>The four \<open>tf.zeros([])\<close>; the three losses are attributes not yet set.\<close>

definition initial_losses :: losses where
  "initial_losses =
     \<lparr>d_loss_real = None, d_loss_fake = None, g_loss = None,
      d_lipschitz_penalty_loss = 0, d_gradient_penalty_loss = 0,
      d_mean_slope_target = 0, d_lipschitz_estimate = 0\<rparr>"

subsection \<open>\<open>penalized_wgan\<close>\<close>

text \<open>The Python literals \<open>10e-9\<close> and \<open>10e-7\<close>.\<close>

definition ten_e_minus_9 :: real where
  "ten_e_minus_9 = 10 / 10 ^ 9"

definition ten_e_minus_7 :: real where
  "ten_e_minus_7 = 10 / 10 ^ 7"

text \<open>\<open>top = tf.squeeze(D_logits_real - D_logits_interpolate)\<close>\<close>

definition lipschitz_top :: "real tensor \<Rightarrow> real tensor \<Rightarrow> py_exn + real tensor" where
  "lipschitz_top D_logits_real D_logits_interpolate =
     ebind (binop (-) D_logits_real D_logits_interpolate) (\<lambda>d. Inr (squeeze d))"

text \<open>\<open>bot = l2norm(inputs - G_interpolate)\<close>\<close>

definition lipschitz_bot :: "real tensor \<Rightarrow> real tensor \<Rightarrow> py_exn + real tensor" where
  "lipschitz_bot x G_interpolate = ebind (binop (-) x G_interpolate) l2norm"

text \<open>
  \<open>tf.where(tf.less(bot, 10e-9 * tf.ones_like(top)), tf.zeros_like(top), num / bot)\<close>,
  with \<open>num\<close> either \<open>tf.square(top)\<close> or \<open>top\<close>.
\<close>

definition where_small :: "real tensor \<Rightarrow> real tensor \<Rightarrow> real tensor \<Rightarrow> py_exn + real tensor" where
  "where_small bot' top' num =
     ebind (binop (*) (scalar ten_e_minus_9) (ones_like top')) (\<lambda>thr.
     ebind (binop (<) bot' thr) (\<lambda>c.
     ebind (binop (/) num bot') (\<lambda>q.
     tf_where c (zeros_like top') q)))"

definition diff_penalty :: "real tensor \<Rightarrow> real tensor \<Rightarrow> py_exn + real tensor" where
  "diff_penalty bot' top' = where_small bot' top' (tmap (\<lambda>v. v\<^sup>2) top')"

text \<open>
  \<open>map_function\<close>, the target slope of one interpolate against the whole batch of real
  images.  \<open>tf.stop_gradient\<close> is the identity on values.
\<close>

definition map_function ::
  "dcgan_args \<Rightarrow> real tensor \<Rightarrow> real tensor \<Rightarrow> real tensor \<times> real tensor \<Rightarrow> py_exn + real" where
  "map_function a x D_logits_real map_pack =
     (case map_pack of (map_G_interpolate, map_g_logits_interpolate) \<Rightarrow>
        ebind (binop (-) x map_G_interpolate) (\<lambda>map_input_difference.
        ebind (l2norm map_input_difference) (\<lambda>n.
        ebind (binop (+) n (scalar ten_e_minus_7)) (\<lambda>map_norm.
        let map_bot = squeeze (tmap (\<lambda>v. inverse (v ^ 3)) map_norm) in
        ebind (binop (-) D_logits_real map_g_logits_interpolate) (\<lambda>d.
        let map_top = squeeze d in
        ebind (binop (*) map_top map_bot) (\<lambda>tb.
        ebind (reshape tb [batch_size a, 1, 1, 1]) (\<lambda>r.
        ebind (binop (*) map_input_difference r) (\<lambda>first_output.
        ebind (reduce_mean_0 first_output) (\<lambda>m.
        let first_output = tf_norm m;
            second_output = reduce_mean (tmap inverse map_norm)
        in Inr (max 0 (first_output / second_output)))))))))))"

fun emap :: "('a \<Rightarrow> py_exn + 'b) \<Rightarrow> 'a list \<Rightarrow> py_exn + 'b list" where
  "emap f [] = Inr []"
| "emap f (x # xs) = ebind (f x) (\<lambda>y. ebind (emap f xs) (\<lambda>ys. Inr (y # ys)))"

text \<open>\<open>tf.map_fn(f, (xs, ys))\<close> applies \<open>f\<close> to the pairs of slices along the first axis.\<close>

definition map_fn ::
  "(real tensor \<times> real tensor \<Rightarrow> py_exn + real) \<Rightarrow> real tensor \<Rightarrow> real tensor \<Rightarrow> py_exn + real tensor" where
  "map_fn f xs ys =
     (case shape xs of
        [] \<Rightarrow> Inl (ValueError ''map_fn: scalar input'')
      | b # _ \<Rightarrow>
          ebind (emap (\<lambda>k. f (row xs k, row ys k)) [0..<b]) (\<lambda>rs.
          Inr \<lparr>shape = [length rs],
               elem = (\<lambda>i. if nth0 i 0 < length rs then rs ! nth0 i 0 else 0)\<rparr>))"

text \<open>
  The \<open>penalized_wgan\<close> branch.  Without \<open>calculate_slope\<close> the target slope is the Python
  float \<open>1. / (2. * lipschitz_penalty)\<close>, which raises when the weight is zero.
\<close>

definition penalized_wgan ::
  "dcgan_args \<Rightarrow> feed \<Rightarrow> real tensor \<Rightarrow> real tensor \<Rightarrow> real tensor \<Rightarrow> losses \<Rightarrow> py_exn + losses" where
  "penalized_wgan a fd D_logits_real G_interpolate D_logits_interpolate L =
     ebind (lipschitz_top D_logits_real D_logits_interpolate) (\<lambda>top'.
     ebind (lipschitz_bot (inputs fd) G_interpolate) (\<lambda>bot'.
     ebind (diff_penalty bot' top') (\<lambda>diff_pen.
     ebind (where_small bot' top' top') (\<lambda>est.
     let gradients = tf_gradients fd G_interpolate in
     ebind (reduce_sum_123 (tmap (\<lambda>v. v\<^sup>2) gradients)) (\<lambda>ss.
     let slopes = tmap sqrt ss in
     ebind (if calculate_slope a
              then map_fn (map_function a (inputs fd) D_logits_real) G_interpolate D_logits_interpolate
            else if 2 * lipschitz_penalty a = 0 then Inl ZeroDivisionError
            else Inr (scalar (1 / (2 * lipschitz_penalty a)))) (\<lambda>d_slope_target.
     ebind (binop (-) slopes d_slope_target) (\<lambda>sd.
     let gradient_pen = reduce_mean (tmap (\<lambda>v. v\<^sup>2) sd) in
     Inr (L\<lparr>d_loss_real := Some (- 1 * reduce_mean D_logits_real),
            d_loss_fake := Some (reduce_mean D_logits_interpolate),
            g_loss := Some (- 1 * reduce_mean D_logits_interpolate),
            d_lipschitz_estimate := reduce_mean est,
            d_lipschitz_penalty_loss := lipschitz_penalty a * reduce_mean diff_pen,
            d_gradient_penalty_loss := gradient_penalty a * gradient_pen,
            d_mean_slope_target := reduce_mean d_slope_target\<rparr>))))))))"

subsection \<open>\<open>improved_wgan\<close>\<close>

text \<open>
  The interpolates of this branch: \<open>alpha\<close> is drawn with \<open>shape=[self.batch_size, 1]\<close>
  and combined with the two image batches by the broadcasting operators.
\<close>

definition improved_interpolates :: "dcgan_args \<Rightarrow> feed \<Rightarrow> py_exn + real tensor" where
  "improved_interpolates a fd =
     (let alpha = random_uniform [batch_size a, 1] (alpha_unit fd)
      in interpolate alpha (inputs fd) (generator a fd))"

definition improved_wgan ::
  "dcgan_args \<Rightarrow> feed \<Rightarrow> real tensor \<Rightarrow> real tensor \<Rightarrow> losses \<Rightarrow> py_exn + losses" where
  "improved_wgan a fd D_logits_real D_logits_fake L =
     ebind (improved_interpolates a fd) (\<lambda>interpolates.
     ebind (discriminator a fd interpolates) (\<lambda>(_, disc_interpolates).
     let gradients = tf_gradients fd interpolates in
     ebind (l2norm gradients) (\<lambda>slopes.
     ebind (binop (-) slopes (scalar 1)) (\<lambda>sd.
     let gradient_pen = reduce_mean (tmap (\<lambda>v. v\<^sup>2) sd) in
     Inr (L\<lparr>d_loss_real := Some (- 1 * reduce_mean D_logits_real),
            d_loss_fake := Some (reduce_mean D_logits_fake),
            g_loss := Some (- 1 * reduce_mean D_logits_fake),
            d_gradient_penalty_loss := gradient_penalty a * gradient_pen\<rparr>)))))"

subsection \<open>\<open>regular_gan\<close>\<close>

text \<open>\<open>tf.nn.sigmoid_cross_entropy_with_logits\<close>: \<open>max(x, 0) - x * y + log(1 + exp(-|x|))\<close>.\<close>

definition sigmoid_cross_entropy_with_logits :: "real tensor \<Rightarrow> real tensor \<Rightarrow> py_exn + real tensor" where
  "sigmoid_cross_entropy_with_logits x y =
     binop (\<lambda>l t. max l 0 - l * t + ln (1 + exp (- \<bar>l\<bar>))) x y"

definition regular_gan ::
  "real tensor \<Rightarrow> real tensor \<Rightarrow> real tensor \<Rightarrow> real tensor \<Rightarrow> losses \<Rightarrow> py_exn + losses" where
  "regular_gan D_real D_logits_real D_fake D_logits_fake L =
     ebind (sigmoid_cross_entropy_with_logits D_logits_real (ones_like D_real)) (\<lambda>cr.
     ebind (sigmoid_cross_entropy_with_logits D_logits_fake (zeros_like D_fake)) (\<lambda>cf.
     ebind (sigmoid_cross_entropy_with_logits D_logits_fake (ones_like D_fake)) (\<lambda>cg.
     Inr (L\<lparr>d_loss_real := Some (reduce_mean cr),
            d_loss_fake := Some (reduce_mean cf),
            g_loss := Some (reduce_mean cg)\<rparr>))))"

subsection \<open>The graph\<close>

text \<open>
  The three \<open>if self.gan_method == ...\<close> statements run one after the other on the
  attributes initialised before them; \<open>d_loss\<close> then reads \<open>d_loss_real\<close> and
  \<open>d_loss_fake\<close>, which exist only if one branch ran.
\<close>

definition truthy :: "nat option \<Rightarrow> bool" where
  "truthy y = (case y of None \<Rightarrow> False | Some n \<Rightarrow> n \<noteq> 0)"

definition get_attr :: "string \<Rightarrow> 'a option \<Rightarrow> py_exn + 'a" where
  "get_attr name v = (case v of None \<Rightarrow> Inl (AttributeError name) | Some x \<Rightarrow> Inr x)"

definition build_losses :: "dcgan_args \<Rightarrow> feed \<Rightarrow> py_exn + (losses \<times> real)" where
  "build_losses a fd =
     (if truthy (y_dim a) then Inl SystemExit
      else
        let G = generator a fd in
        ebind (discriminator a fd (inputs fd)) (\<lambda>(D_real, D_logits_real).
        ebind (discriminator a fd G) (\<lambda>(D_fake, D_logits_fake).
        let alpha = random_uniform [batch_size a, 1, 1, 1] (alpha_small fd) in
        ebind (interpolate alpha (inputs fd) G) (\<lambda>G_interpolate.
        ebind (discriminator a fd G_interpolate) (\<lambda>(D_interpolate, D_logits_interpolate).
        ebind (if gan_method a = ''penalized_wgan''
                 then penalized_wgan a fd D_logits_real G_interpolate D_logits_interpolate initial_losses
               else Inr initial_losses) (\<lambda>L1.
        ebind (if gan_method a = ''improved_wgan''
                 then improved_wgan a fd D_logits_real D_logits_fake L1
               else Inr L1) (\<lambda>L2.
        ebind (if gan_method a = ''regular_gan''
                 then regular_gan D_real D_logits_real D_fake D_logits_fake L2
               else Inr L2) (\<lambda>L3.
        ebind (get_attr ''d_loss_real'' (d_loss_real L3)) (\<lambda>lr.
        ebind (get_attr ''d_loss_fake'' (d_loss_fake L3)) (\<lambda>lf.
        ebind (get_attr ''g_loss'' (g_loss L3)) (\<lambda>_.
        Inr (L3, lr + lf + d_lipschitz_penalty_loss L3 + d_gradient_penalty_loss L3))))))))))))"

section \<open>Trainable variables and the two optimizers\<close>

text \<open>
  The layers are created under the variable scopes \<open>generator\<close> and \<open>discriminator\<close> with
  the names \<open>model.py\<close> passes to the layer library.  Which variables a layer of each
  kind creates under its name is decided by the layer library, which is not part of the
  sources: \<open>leaves\<close> is that table, a parameter.  A variable is named
  \<open>scope/layer/leaf:0\<close>.
\<close>

datatype layer = Conv2d | Deconv2d | Linear | BatchNorm

definition layer_variables :: "(layer \<Rightarrow> string list) \<Rightarrow> string \<Rightarrow> layer \<times> string \<Rightarrow> string list" where
  "layer_variables leaves scope l =
     map (\<lambda>leaf. scope @ ''/'' @ snd l @ ''/'' @ leaf @ '':0'') (leaves (fst l))"

definition generator_layers :: "(layer \<times> string) list" where
  "generator_layers =
     [(Linear, ''g_h0_lin''), (BatchNorm, ''g_bn0''),
      (Deconv2d, ''g_h1''), (BatchNorm, ''g_bn1''),
      (Deconv2d, ''g_h2''), (BatchNorm, ''g_bn2''),
      (Deconv2d, ''g_h3''), (BatchNorm, ''g_bn3''),
      (Deconv2d, ''g_h4'')]"

text \<open>Without \<open>discriminator_batch_norm\<close> the three \<open>d_bn\<close> are \<open>tf.identity\<close>.\<close>

definition discriminator_layers :: "bool \<Rightarrow> (layer \<times> string) list" where
  "discriminator_layers bn =
     [(Conv2d, ''d_h0_conv'')]
     @ [(Conv2d, ''d_h1_conv'')] @ (if bn then [(BatchNorm, ''d_bn1'')] else [])
     @ [(Conv2d, ''d_h2_conv'')] @ (if bn then [(BatchNorm, ''d_bn2'')] else [])
     @ [(Conv2d, ''d_h3_conv'')] @ (if bn then [(BatchNorm, ''d_bn3'')] else [])
     @ [(Linear, ''d_h3_lin'')]"

definition trainable_variables :: "(layer \<Rightarrow> string list) \<Rightarrow> dcgan_args \<Rightarrow> string list" where
  "trainable_variables leaves a =
     concat (map (layer_variables leaves ''generator'') generator_layers)
     @ concat (map (layer_variables leaves ''discriminator'')
                 (discriminator_layers (discriminator_batch_norm a)))"

text \<open>Python's \<open>sub in name\<close> on strings.\<close>

fun str_in :: "string \<Rightarrow> string \<Rightarrow> bool" where
  "str_in sub [] = (sub = [])"
| "str_in sub (c # cs) = (prefix sub (c # cs) \<or> str_in sub cs)"

definition d_vars :: "string list \<Rightarrow> string list" where
  "d_vars t_vars = filter (str_in ''d_'') t_vars"

definition g_vars :: "string list \<Rightarrow> string list" where
  "g_vars t_vars = filter (str_in ''g_'') t_vars"

text \<open>
  The trainable variables are a store from names to values.  \<open>compute_gradients\<close> pairs
  each variable of \<open>var_list\<close> with the gradient of the loss at the current store;
  \<open>apply_gradients\<close> assigns to each variable of those pairs the optimizer's update of its
  value.  The gradient and Adam's update rule are TensorFlow's: parameters.
\<close>

type_synonym 'v store = "string \<Rightarrow> 'v"

definition compute_gradients ::
  "(('v store \<Rightarrow> real) \<Rightarrow> string \<Rightarrow> 'v store \<Rightarrow> 'v) \<Rightarrow> ('v store \<Rightarrow> real) \<Rightarrow> string list
     \<Rightarrow> 'v store \<Rightarrow> ('v \<times> string) list" where
  "compute_gradients grad loss var_list st = map (\<lambda>v. (grad loss v st, v)) var_list"

definition apply_gradients ::
  "(string \<Rightarrow> 'v \<Rightarrow> 'v \<Rightarrow> 'v) \<Rightarrow> ('v \<times> string) list \<Rightarrow> 'v store \<Rightarrow> 'v store" where
  "apply_gradients upd grads_and_vars st =
     fold (\<lambda>(g, v) s. s(v := upd v g (s v))) grads_and_vars st"

definition d_optim ::
  "(('v store \<Rightarrow> real) \<Rightarrow> string \<Rightarrow> 'v store \<Rightarrow> 'v) \<Rightarrow> (string \<Rightarrow> 'v \<Rightarrow> 'v \<Rightarrow> 'v)
     \<Rightarrow> ('v store \<Rightarrow> real) \<Rightarrow> string list \<Rightarrow> 'v store \<Rightarrow> 'v store" where
  "d_optim grad opt_d d_loss t_vars st =
     apply_gradients opt_d (compute_gradients grad d_loss (d_vars t_vars) st) st"

definition g_optim ::
  "(('v store \<Rightarrow> real) \<Rightarrow> string \<Rightarrow> 'v store \<Rightarrow> 'v) \<Rightarrow> (string \<Rightarrow> 'v \<Rightarrow> 'v \<Rightarrow> 'v) \<Rightarrow> bool
     \<Rightarrow> ('v store \<Rightarrow> real) \<Rightarrow> ('v store \<Rightarrow> real) \<Rightarrow> ('v store \<Rightarrow> real)
     \<Rightarrow> string list \<Rightarrow> 'v store \<Rightarrow> 'v store" where
  "g_optim grad opt_g optimize_pen g_loss_of lipschitz_pen_of gradient_pen_of t_vars st =
     (let grads_and_vars =
        (if optimize_pen
         then compute_gradients grad (\<lambda>s. g_loss_of s - lipschitz_pen_of s - gradient_pen_of s)
                (g_vars t_vars) st
         else compute_gradients grad g_loss_of (g_vars t_vars) st)
      in apply_gradients opt_g grads_and_vars st)"

section \<open>\<open>build_model\<close> and \<open>__init__\<close> as a whole\<close>

text \<open>
  The object after construction: its attributes, the value of each scalar of the graph
  on the feed, and what construction printed.  \<open>get_loader\<close> belongs to the data loader,
  which is not part of the sources; the batch and the number of file paths it returns
  are the feed's.
\<close>

record model =
  m_args :: dcgan_args
  m_paths :: nat
  m_losses :: losses
  m_d_loss :: real
  m_printed :: "string list"

definition build_model :: "dcgan_args \<Rightarrow> feed \<Rightarrow> py_exn + model" where
  "build_model a fd =
     ebind (build_losses a fd) (\<lambda>(L, d_loss).
     ebind (adjust_fid_n_samples (fid_n_samples a) (fid_sample_batchsize a)) (\<lambda>(n, out).
     Inr \<lparr>m_args = a\<lparr>fid_n_samples := n\<rparr>, m_paths = n_paths fd,
          m_losses = L, m_d_loss = d_loss, m_printed = out\<rparr>))"

definition DCGAN_init :: "dcgan_args \<Rightarrow> feed \<Rightarrow> py_exn + model" where
  "DCGAN_init a fd =
     ebind (check_args a) (\<lambda>_.
     ebind (build_model a fd) (\<lambda>m.
     Inr (m\<lparr>m_printed := [''build model.. ''] @ m_printed m @ [''ok'']\<rparr>)))"

section \<open>\<open>train\<close>\<close>

record config =
  epoch :: int
  learning_rate_d :: real
  learning_rate_g :: real
  train_size :: int
  config_batch_size :: int
  fid_eval_steps :: int

text \<open>
  The calls \<open>train\<close> makes into TensorFlow, NumPy, the FID module and the checkpoint
  saver.  The two \<open>sess.run\<close> that apply the discriminator optimizer differ in their fetch
  lists: the first also fetches the diagnostics that are logged.
\<close>

datatype op =
    NpLoadStats
  | LoadCheckpoint
  | AssignLearningRateD real
  | AssignLearningRateG real
  | RunDOptimLogged
  | RunDOptimExtra
  | RunGOptim
  | AddSummary string int
  | RunSampler
  | SaveImages nat nat
  | RunSamplerFid
  | ActivationStatistics
  | FrechetDistance
  | AssignFid real
  | RunFidSum
  | SaveCheckpoint int
  | RequestStop
  | JoinThreads

datatype event = Called op | Raised op py_exn | Printed string

text \<open>
  A call returns its numeric results by position and, where a summary is fetched, the
  serialized summary; or it raises.  The environment decides that from the call and
  everything that happened before it.  An interrupt is delivered during some call.
\<close>

type_synonym fetches = "(nat \<Rightarrow> real) \<times> string"

type_synonym env = "event list \<Rightarrow> op \<Rightarrow> py_exn + fetches"

record train_state =
  trace :: "event list"
  counter :: int
  errD_fake :: real
  errD_real :: real
  errG :: real
  errG_count :: int
  penD_gradient :: real
  penD_lipschitz :: real
  esti_slope :: real
  lipschitz_estimate :: real

definition call :: "env \<Rightarrow> op \<Rightarrow> (train_state, fetches) prog" where
  "call ev c =
     (\<lambda>s. case ev (trace s) c of
        Inl e \<Rightarrow> (Inl e, s\<lparr>trace := trace s @ [Raised c e]\<rparr>)
      | Inr r \<Rightarrow> (Inr r, s\<lparr>trace := trace s @ [Called c]\<rparr>))"

definition call_unit :: "env \<Rightarrow> op \<Rightarrow> (train_state, unit) prog" where
  "call_unit ev c = pbind (call ev c) (\<lambda>_. pret ())"

definition print :: "string \<Rightarrow> (train_state, unit) prog" where
  "print msg = (\<lambda>s. (Inr (), s\<lparr>trace := trace s @ [Printed msg]\<rparr>))"

definition pmodify :: "('s \<Rightarrow> 's) \<Rightarrow> ('s, unit) prog" where
  "pmodify f = (\<lambda>s. (Inr (), f s))"

definition pget :: "('s \<Rightarrow> 'a) \<Rightarrow> ('s, 'a) prog" where
  "pget f = (\<lambda>s. (Inr (f s), s))"

fun str_exn :: "py_exn \<Rightarrow> string" where
  "str_exn (AssertionError m) = m"
| "str_exn (ValueError m) = m"
| "str_exn (AttributeError m) = m"
| "str_exn (RuntimeError m) = m"
| "str_exn ZeroDivisionError = ''division by zero''"
| "str_exn KeyboardInterrupt = []"
| "str_exn SystemExit = []"

subsection \<open>One pass of the loop over batches\<close>

text \<open>\<open># Update D network\<close>: the logged run, then \<open>num_discriminator_updates - 1\<close> more.\<close>

definition update_D :: "env \<Rightarrow> model \<Rightarrow> (train_state, fetches) prog" where
  "update_D ev m =
     pbind (call ev RunDOptimLogged) (\<lambda>r.
     pbind (for_each (\<lambda>i. call_unit ev RunDOptimExtra)
              (py_range (num_discriminator_updates (m_args m) - 1))) (\<lambda>_.
     pret r))"

text \<open>\<open># Update G network\<close>\<close>

definition update_G :: "env \<Rightarrow> config \<Rightarrow> int \<Rightarrow> (train_state, unit) prog" where
  "update_G ev cfg c =
     pwhen (learning_rate_g cfg > 0)
       (pbind (call ev RunGOptim) (\<lambda>(v, summary_str).
        pbind (pwhen (np_mod c 20 = 0) (call_unit ev (AddSummary summary_str c))) (\<lambda>_.
        pmodify (\<lambda>s. s\<lparr>errG := errG s + v 1, errG_count := errG_count s + 1\<rparr>))))"

definition accumulate :: "(nat \<Rightarrow> real) \<Rightarrow> train_state \<Rightarrow> train_state" where
  "accumulate v s =
     s\<lparr>errD_fake := errD_fake s + v 1,
       errD_real := errD_real s + v 2,
       penD_gradient := penD_gradient s + v 4,
       penD_lipschitz := penD_lipschitz s + v 5,
       esti_slope := esti_slope s + v 6,
       lipschitz_estimate := lipschitz_estimate s + v 7\<rparr>"

definition reset_accumulators :: "train_state \<Rightarrow> train_state" where
  "reset_accumulators s =
     s\<lparr>errD_fake := 0, errD_real := 0, errG := 0, errG_count := 0,
       penD_gradient := 0, penD_lipschitz := 0, esti_slope := 0, lipschitz_estimate := 0\<rparr>"

text \<open>\<open># Save\<close>: the sample grid, inside its own \<open>try ... except Exception\<close>.\<close>

definition save_samples :: "env \<Rightarrow> nat \<Rightarrow> nat \<Rightarrow> (train_state, unit) prog" where
  "save_samples ev ep batch_idx =
     try_except
       (pbind (call ev RunSampler) (\<lambda>_.
        pbind (call ev (SaveImages ep batch_idx)) (\<lambda>_.
        print ''[Sample] d_loss, g_loss'')))
       (\<lambda>e. if is_Exception e
             then pbind (print (str_exn e)) (\<lambda>_. print ''sample image error!'')
             else praise e)"

text \<open>
  The samples for the FID: \<open>np.zeros\<close> rejects a negative size, \<open>//\<close> a zero divisor; then
  \<open>n_batches\<close> runs of the sampler and the activation statistics.
\<close>

definition fid_samples :: "env \<Rightarrow> model \<Rightarrow> (train_state, unit) prog" where
  "fid_samples ev m =
     pbind (print ''samples for incept'') (\<lambda>_.
     if fid_n_samples (m_args m) < 0 then praise (ValueError ''negative dimensions are not allowed'')
     else if fid_sample_batchsize (m_args m) = 0 then praise ZeroDivisionError
     else
       (let n_batches = fid_n_samples (m_args m) div int (fid_sample_batchsize (m_args m)) in
        pbind (for_each (\<lambda>btch. pbind (print ''samples for incept btch/n_batches'') (\<lambda>_.
                                  call_unit ev RunSamplerFid))
                 (py_range n_batches)) (\<lambda>_.
        pbind (print ''ok'') (\<lambda>_.
        call_unit ev ActivationStatistics))))"

text \<open>
  \<open>try: FID = fid.calculate_frechet_distance(...) except Exception as e: print(e); FID=500\<close>
\<close>

definition frechet_or_500 :: "env \<Rightarrow> (train_state, real) prog" where
  "frechet_or_500 ev =
     try_except
       (pbind (call ev FrechetDistance) (\<lambda>(v, _). pret (v 0)))
       (\<lambda>e. if is_Exception e then pbind (print (str_exn e)) (\<lambda>_. pret 500) else praise e)"

definition sample_and_fid :: "env \<Rightarrow> model \<Rightarrow> nat \<Rightarrow> nat \<Rightarrow> int \<Rightarrow> (train_state, unit) prog" where
  "sample_and_fid ev m ep batch_idx c =
     pbind (save_samples ev ep batch_idx) (\<lambda>_.
     pbind (fid_samples ev m) (\<lambda>_.
     pbind (print ''calculate FID:'') (\<lambda>_.
     pbind (frechet_or_500 ev) (\<lambda>FID.
     pbind (print ''FID'') (\<lambda>_.
     pbind (call ev (AssignFid FID)) (\<lambda>_.
     pbind (call ev RunFidSum) (\<lambda>(_, summary_str).
     call_unit ev (AddSummary summary_str c))))))))"

text \<open>\<open># Save checkpoint\<close>\<close>

definition save_checkpoint :: "env \<Rightarrow> int \<Rightarrow> (train_state, unit) prog" where
  "save_checkpoint ev c = pwhen (c \<noteq> 0 \<and> np_mod c 2000 = 0) (call_unit ev (SaveCheckpoint c))"

definition train_step :: "env \<Rightarrow> model \<Rightarrow> config \<Rightarrow> nat \<Rightarrow> nat \<Rightarrow> (train_state, unit) prog" where
  "train_step ev m cfg ep batch_idx =
     pbind (update_D ev m) (\<lambda>(v, summary_str).
     pbind (pget counter) (\<lambda>c.
     pbind (pwhen (np_mod c 20 = 0) (call_unit ev (AddSummary summary_str c))) (\<lambda>_.
     pbind (update_G ev cfg c) (\<lambda>_.
     pbind (pmodify (accumulate v)) (\<lambda>_.
     pbind (pwhen (np_mod c 100 = 0)
              (pbind (print ''Epoch: [..] [../..] time, d_loss, lip_pen, gradient_pen, g_loss'') (\<lambda>_.
               pmodify reset_accumulators))) (\<lambda>_.
     pbind (pwhen (np_mod c (fid_eval_steps cfg) = 0) (sample_and_fid ev m ep batch_idx c)) (\<lambda>_.
     pbind (save_checkpoint ev c) (\<lambda>_.
     pmodify (\<lambda>s. s\<lparr>counter := counter s + 1\<rparr>)))))))))"

subsection \<open>The loops, the handlers and the finalizer\<close>

definition train_epoch :: "env \<Rightarrow> model \<Rightarrow> config \<Rightarrow> int \<Rightarrow> nat \<Rightarrow> (train_state, unit) prog" where
  "train_epoch ev m cfg batch_nums ep =
     pbind (call ev (AssignLearningRateD (learning_rate_d cfg))) (\<lambda>_.
     pbind (call ev (AssignLearningRateG (learning_rate_g cfg))) (\<lambda>_.
     for_each (train_step ev m cfg ep) (py_range batch_nums)))"

text \<open>The body of the \<open>try\<close>.\<close>

definition train_loop :: "env \<Rightarrow> model \<Rightarrow> config \<Rightarrow> int \<Rightarrow> (train_state, unit) prog" where
  "train_loop ev m cfg batch_nums = for_each (train_epoch ev m cfg batch_nums) (py_range (epoch cfg))"

text \<open>
  \<open>except KeyboardInterrupt: self.save(config.checkpoint_dir, counter)\<close>, then
  \<open>except Exception as e: print(e)\<close>; anything else propagates.
\<close>

definition train_handler :: "env \<Rightarrow> py_exn \<Rightarrow> (train_state, unit) prog" where
  "train_handler ev e =
     (if e = KeyboardInterrupt
        then pbind (pget counter) (\<lambda>c. call_unit ev (SaveCheckpoint c))
      else if is_Exception e then print (str_exn e)
      else praise e)"

text \<open>\<open>finally: self.coord.request_stop(); self.coord.join(self.threads)\<close>\<close>

definition train_finally :: "env \<Rightarrow> (train_state, unit) prog" where
  "train_finally ev = pbind (call ev RequestStop) (\<lambda>_. call_unit ev JoinThreads)"

definition train_guarded :: "env \<Rightarrow> model \<Rightarrow> config \<Rightarrow> int \<Rightarrow> (train_state, unit) prog" where
  "train_guarded ev m cfg batch_nums =
     try_finally (try_except (train_loop ev m cfg batch_nums) (train_handler ev)) (train_finally ev)"

text \<open>What precedes the \<open>try\<close>: nothing protects it.\<close>

definition train_prelude :: "env \<Rightarrow> model \<Rightarrow> config \<Rightarrow> (train_state, int) prog" where
  "train_prelude ev m cfg =
     (if \<not> m_paths m > 0 then praise (AssertionError ''no data loaded, was model not built?'')
      else
        pbind (print ''load train stats.. '') (\<lambda>_.
        pbind (call ev NpLoadStats) (\<lambda>_.
        pbind (print ''ok'') (\<lambda>_.
        pbind (pwhen (load_checkpoint (m_args m))
                 (pbind (call ev LoadCheckpoint) (\<lambda>(v, _).
                  if v 0 \<noteq> 0 then print '' [*] Load SUCCESS'' else print '' [!] Load failed...''))) (\<lambda>_.
        if config_batch_size cfg = 0 then praise ZeroDivisionError
        else pret (min (int (m_paths m)) (train_size cfg) div config_batch_size cfg))))))"

definition initial_state :: "model \<Rightarrow> train_state" where
  "initial_state m =
     \<lparr>trace = [], counter = counter_start (m_args m),
      errD_fake = 0, errD_real = 0, errG = 0, errG_count = 0,
      penD_gradient = 0, penD_lipschitz = 0, esti_slope = 0, lipschitz_estimate = 0\<rparr>"

definition train :: "env \<Rightarrow> model \<Rightarrow> config \<Rightarrow> (py_exn + unit) \<times> train_state" where
  "train ev m cfg =
     pbind (train_prelude ev m cfg) (\<lambda>batch_nums. train_guarded ev m cfg batch_nums)
       (initial_state m)"

section \<open>What a run of \<open>train\<close> did\<close>

text \<open>
  Readings of the trace: how often each optimizer was applied, the steps at which a
  checkpoint was saved, the values assigned to the FID variable.  A program keeps a
  reading of the state when running it never changes the reading; a reading ignores the
  calls outside a set when appending their events does not change it.
\<close>

fun event_op :: "event \<Rightarrow> op option" where
  "event_op (Called c) = Some c"
| "event_op (Raised c e) = Some c"
| "event_op (Printed msg) = None"

definition keeps :: "(train_state \<Rightarrow> 'x) \<Rightarrow> (train_state, 'a) prog \<Rightarrow> bool" where
  "keeps f m = (\<forall>s. f (snd (m s)) = f s)"

definition ignores :: "op set \<Rightarrow> (train_state \<Rightarrow> 'x) \<Rightarrow> bool" where
  "ignores S f = (\<forall>s e. event_op e \<notin> Some ` S \<longrightarrow> f (s\<lparr>trace := trace s @ [e]\<rparr>) = f s)"

definition d_applications :: "event list \<Rightarrow> nat" where
  "d_applications tr =
     length (filter (\<lambda>e. e = Called RunDOptimLogged \<or> e = Called RunDOptimExtra) tr)"

definition g_applications :: "event list \<Rightarrow> nat" where
  "g_applications tr = length (filter (\<lambda>e. e = Called RunGOptim) tr)"

fun checkpoints :: "event list \<Rightarrow> int list" where
  "checkpoints [] = []"
| "checkpoints (Called (SaveCheckpoint c) # tr) = c # checkpoints tr"
| "checkpoints (e # tr) = checkpoints tr"

fun fid_values :: "event list \<Rightarrow> real list" where
  "fid_values [] = []"
| "fid_values (Called (AssignFid v) # tr) = v # fid_values tr"
| "fid_values (e # tr) = fid_values tr"


text \<open>The six accumulators fed by the logged run of the discriminator.\<close>

definition diagnostics :: "train_state \<Rightarrow> real \<times> real \<times> real \<times> real \<times> real \<times> real" where
  "diagnostics s =
     (errD_fake s, errD_real s, penD_gradient s, penD_lipschitz s, esti_slope s,
      lipschitz_estimate s)"


text \<open>A program returns when it raises from no state.\<close>

definition returns :: "(train_state, 'a) prog \<Rightarrow> bool" where
  "returns m = (\<forall>s. \<exists>x s'. m s = (Inr x, s'))"

section \<open>Concrete configurations\<close>

text \<open>The defaults of \<open>__init__\<close>, and a batch of two images of one row and two columns.\<close>

definition default_args :: dcgan_args where
  "default_args =
     \<lparr>batch_size = 64, sample_num = 64, output_height = 64, output_width = 64,
      y_dim = None, c_dim = 3, gan_method = ''regular_gan'',
      lipschitz_penalty = 0.1, gradient_penalty = 0.1,
      optimize_penalty = False, calculate_slope = True,
      discriminator_batch_norm = True, load_checkpoint = False, counter_start = 0,
      fid_n_samples = 10000, fid_sample_batchsize = 5000,
      num_discriminator_updates = 1\<rparr>"

definition small_args :: dcgan_args where
  "small_args = default_args\<lparr>batch_size := 2, output_height := 1, output_width := 2, c_dim := 1\<rparr>"

definition small_feed :: feed where
  "small_feed =
     \<lparr>inputs = \<lparr>shape = [2, 1, 2, 1], elem = (\<lambda>_. 1)\<rparr>, n_paths = 8,
      gen = (\<lambda>_. 0), disc_logit = (\<lambda>x b. elem x [b, 0, 0, 0]),
      disc_grad = (\<lambda>x i. 1),
      alpha_small = (\<lambda>i. 1 / 200),
      alpha_unit = (\<lambda>i. if nth0 i 0 = 0 then 1 / 4 else 3 / 4)\<rparr>"

text \<open>The same batch under each of the two Wasserstein methods.\<close>

definition penalized_args :: dcgan_args where
  "penalized_args = small_args\<lparr>gan_method := ''penalized_wgan''\<rparr>"

definition improved_args :: dcgan_args where
  "improved_args = small_args\<lparr>gan_method := ''improved_wgan''\<rparr>"

text \<open>A table of variable names for the layer library, of the kind DCGAN code uses.\<close>

definition dcgan_leaves :: "layer \<Rightarrow> string list" where
  "dcgan_leaves l = (case l of
      Conv2d \<Rightarrow> [''w'', ''biases'']
    | Deconv2d \<Rightarrow> [''w'', ''biases'']
    | Linear \<Rightarrow> [''Matrix'', ''bias'']
    | BatchNorm \<Rightarrow> [''beta'', ''gamma''])"

section \<open>The Lipschitz penalty in the words of the specification\<close>

text \<open>
  The penalty term of one sample is \<open>diff\<^sup>2 / dist\<close> unless \<open>dist < 1e-8\<close>, in which case
  it is 0; \<open>diff\<close> is the real logit minus the interpolate logit of the sample, and \<open>dist\<close>
  the L2 norm of the real image minus the interpolate image.
\<close>

definition penalty_term :: "real \<Rightarrow> real \<Rightarrow> real" where
  "penalty_term df ds = (if ds < 1 / 10 ^ 8 then 0 else df\<^sup>2 / ds)"

definition logit_diff :: "feed \<Rightarrow> real tensor \<Rightarrow> nat \<Rightarrow> real" where
  "logit_diff fd Gi b = disc_logit fd (inputs fd) b - disc_logit fd Gi b"

definition image_dist :: "dcgan_args \<Rightarrow> feed \<Rightarrow> real tensor \<Rightarrow> nat \<Rightarrow> real" where
  "image_dist a fd Gi b =
     sqrt (sum_list (map (\<lambda>j. (elem (inputs fd) (b # j) - elem Gi (b # j))\<^sup>2)
             (indices [output_height a, output_width a, c_dim a])))"


text \<open>
  An environment in which every call returns zeros, an object with three discriminator
  updates per step, and a configuration of one epoch of two batches.
\<close>

definition quiet_env :: env where
  "quiet_env = (\<lambda>tr c. Inr (\<lambda>_. 0, []))"

definition example_model :: model where
  "example_model =
     \<lparr>m_args = default_args\<lparr>num_discriminator_updates := 3\<rparr>, m_paths = 8,
      m_losses = initial_losses, m_d_loss = 0, m_printed = []\<rparr>"

definition example_config :: config where
  "example_config =
     \<lparr>epoch = 1, learning_rate_d = 2 / 10000, learning_rate_g = 2 / 10000, train_size = 8,
      config_batch_size = 4, fid_eval_steps = 7\<rparr>"


text \<open>An environment that delivers an interrupt during the logged discriminator run.\<close>

definition interrupting_env :: env where
  "interrupting_env = (\<lambda>tr c. if c = RunDOptimLogged then Inl KeyboardInterrupt else Inr (\<lambda>_. 0, []))"


text \<open>An environment in which the Frechet distance always fails and nothing else does.\<close>

definition failing_fid_env :: env where
  "failing_fid_env =
     (\<lambda>tr c. if c = FrechetDistance then Inl (ValueError ''Imaginary component'')
              else Inr (\<lambda>_. 0, []))"


section \<open>Construction\<close>

lemma check_args_fail:
  "gan_method a \<notin> set gan_methods \<or> lipschitz_penalty a < 0 \<or> gradient_penalty a < 0
     \<or> num_discriminator_updates a < 1 \<Longrightarrow> \<exists>msg. check_args a = Inl (AssertionError msg)"
  by (auto simp: check_args_def)

text \<open>
  C9.  When \<open>gan_method\<close> is none of \<open>penalized_wgan\<close>, \<open>improved_wgan\<close> and \<open>regular_gan\<close>,
  or a penalty weight is negative, or \<open>num_discriminator_updates\<close> is below 1, \<open>__init__\<close>
  raises an \<open>AssertionError\<close> whatever the data: no object is constructed, so there is
  nothing \<open>train\<close> could be called on.
\<close>

theorem init_rejects_bad_config:
  "gan_method a \<notin> set gan_methods \<or> lipschitz_penalty a < 0 \<or> gradient_penalty a < 0
     \<or> num_discriminator_updates a < 1 \<Longrightarrow> \<exists>msg. DCGAN_init a fd = Inl (AssertionError msg)"
  using check_args_fail[of a] by (auto simp: DCGAN_init_def ebind_def)

theorem init_rejects_bad_config_witness:
  "gan_method (default_args\<lparr>gan_method := ''bogus''\<rparr>) \<notin> set gan_methods
   \<and> (\<exists>msg. DCGAN_init (default_args\<lparr>gan_method := ''bogus''\<rparr>) small_feed = Inl (AssertionError msg))"
  using init_rejects_bad_config[of "default_args\<lparr>gan_method := ''bogus''\<rparr>" small_feed]
  by (simp add: gan_methods_def default_args_def)

lemma build_losses_small:
  "\<exists>L. build_losses (small_args\<lparr>fid_n_samples := 10000, fid_sample_batchsize := 3000\<rparr>) small_feed = Inr L"
  by (simp add: build_losses_def small_args_def default_args_def small_feed_def truthy_def
        generator_def discriminator_def ebind_def interpolate_def binop_def broadcast_shape_def
        bdim_def random_uniform_def scalar_def Let_def regular_gan_def
        sigmoid_cross_entropy_with_logits_def tmap_def ones_like_def zeros_like_def get_attr_def)

lemma init_small:
  "\<exists>m. DCGAN_init (small_args\<lparr>fid_n_samples := 10000, fid_sample_batchsize := 3000\<rparr>) small_feed = Inr m"
  using build_losses_small
  by (auto simp: DCGAN_init_def build_model_def adjust_fid_n_samples_def ebind_def Let_def
        check_args_def small_args_def default_args_def gan_methods_def)

text \<open>
  C6.  When construction succeeds, \<open>fid_sample_batchsize\<close> is not zero (the \<open>%\<close> would have
  raised).  If \<open>fid_n_samples\<close> is a multiple of it, the attribute keeps its value and the
  warning is not printed; otherwise it becomes
  \<open>(fid_n_samples // fid_sample_batchsize) * fid_sample_batchsize\<close> and the warning is
  printed.  With 10000 and 3000 the result is 9000.
\<close>

theorem init_adjusts_fid_n_samples:
  assumes "DCGAN_init a fd = Inr m"
  shows "fid_sample_batchsize a \<noteq> 0
    \<and> (if fid_n_samples a mod int (fid_sample_batchsize a) = 0
       then fid_n_samples (m_args m) = fid_n_samples a
          \<and> m_printed m = [''build model.. '', ''ok'']
       else fid_n_samples (m_args m)
              = fid_n_samples a div int (fid_sample_batchsize a) * int (fid_sample_batchsize a)
          \<and> m_printed m = [''build model.. '']
              @ fid_warning (fid_n_samples a) (fid_n_samples (m_args m)) @ [''ok''])"
  using assms
  by (auto simp: DCGAN_init_def build_model_def adjust_fid_n_samples_def ebind_def Let_def
           split: sum.splits prod.splits if_splits)

theorem init_adjusts_fid_n_samples_witness:
  "\<exists>m. DCGAN_init (small_args\<lparr>fid_n_samples := 10000, fid_sample_batchsize := 3000\<rparr>) small_feed = Inr m
     \<and> fid_n_samples (m_args m) = 9000
     \<and> m_printed m = [''build model.. ''] @ fid_warning 10000 9000 @ [''ok'']"
proof -
  obtain m where m:
    "DCGAN_init (small_args\<lparr>fid_n_samples := 10000, fid_sample_batchsize := 3000\<rparr>) small_feed = Inr m"
    using init_small by blast
  from init_adjusts_fid_n_samples[OF m] show ?thesis
    using m by (simp add: small_args_def default_args_def)
qed

section \<open>The loss and penalty graph\<close>

lemma ebind_Inr_iff: "ebind m f = Inr y \<longleftrightarrow> (\<exists>x. m = Inr x \<and> f x = Inr y)"
  by (cases m) (auto simp: ebind_def)

lemma improved_wgan_keeps:
  "improved_wgan a fd Dr Df L = Inr L' \<Longrightarrow>
     d_lipschitz_penalty_loss L' = d_lipschitz_penalty_loss L
   \<and> d_mean_slope_target L' = d_mean_slope_target L
   \<and> d_lipschitz_estimate L' = d_lipschitz_estimate L"
  by (auto simp: improved_wgan_def ebind_Inr_iff Let_def split: prod.splits)

lemma regular_gan_keeps:
  "regular_gan D Dr F Df L = Inr L' \<Longrightarrow>
     d_lipschitz_penalty_loss L' = d_lipschitz_penalty_loss L
   \<and> d_gradient_penalty_loss L' = d_gradient_penalty_loss L
   \<and> d_mean_slope_target L' = d_mean_slope_target L
   \<and> d_lipschitz_estimate L' = d_lipschitz_estimate L"
  by (auto simp: regular_gan_def ebind_Inr_iff)

lemma build_losses_unselected:
  assumes "build_losses a fd = Inr (L, d)"
  shows "(gan_method a \<noteq> ''penalized_wgan'' \<longrightarrow>
            d_lipschitz_penalty_loss L = 0 \<and> d_mean_slope_target L = 0 \<and> d_lipschitz_estimate L = 0)
       \<and> (gan_method a \<noteq> ''penalized_wgan'' \<and> gan_method a \<noteq> ''improved_wgan'' \<longrightarrow>
            d_gradient_penalty_loss L = 0)"
  using assms
  apply (simp add: build_losses_def ebind_Inr_iff Let_def split: if_splits prod.splits)
  apply (auto simp: initial_losses_def dest!: improved_wgan_keeps regular_gan_keeps)
  done

text \<open>
  C2.  On a constructed object, the Lipschitz penalty loss, the mean slope target and the
  Lipschitz estimate are exactly 0 unless the method is \<open>penalized_wgan\<close>, and the gradient
  penalty loss is exactly 0 unless the method is \<open>penalized_wgan\<close> or \<open>improved_wgan\<close>: the
  four attributes are initialised to \<open>tf.zeros([])\<close> and only the branch of their own method
  assigns them.  So all four are 0 under \<open>regular_gan\<close>, and the three of the first group
  under \<open>improved_wgan\<close>.
\<close>

theorem unselected_penalties_zero:
  assumes "DCGAN_init a fd = Inr m"
  shows "(gan_method a \<noteq> ''penalized_wgan'' \<longrightarrow>
            d_lipschitz_penalty_loss (m_losses m) = 0 \<and> d_mean_slope_target (m_losses m) = 0
              \<and> d_lipschitz_estimate (m_losses m) = 0)
       \<and> (gan_method a \<noteq> ''penalized_wgan'' \<and> gan_method a \<noteq> ''improved_wgan'' \<longrightarrow>
            d_gradient_penalty_loss (m_losses m) = 0)"
proof -
  from assms obtain L d where "build_losses a fd = Inr (L, d)" and "m_losses m = L"
    by (auto simp: DCGAN_init_def build_model_def ebind_Inr_iff split: prod.splits)
  then show ?thesis using build_losses_unselected by metis
qed

theorem unselected_penalties_zero_witness:
  "\<exists>m. DCGAN_init (small_args\<lparr>fid_n_samples := 10000, fid_sample_batchsize := 3000\<rparr>) small_feed = Inr m
     \<and> gan_method (small_args\<lparr>fid_n_samples := 10000, fid_sample_batchsize := 3000\<rparr>) \<noteq> ''penalized_wgan''
     \<and> gan_method (small_args\<lparr>fid_n_samples := 10000, fid_sample_batchsize := 3000\<rparr>) \<noteq> ''improved_wgan''
     \<and> d_lipschitz_penalty_loss (m_losses m) = 0 \<and> d_mean_slope_target (m_losses m) = 0
     \<and> d_lipschitz_estimate (m_losses m) = 0 \<and> d_gradient_penalty_loss (m_losses m) = 0"
proof -
  obtain m where m:
    "DCGAN_init (small_args\<lparr>fid_n_samples := 10000, fid_sample_batchsize := 3000\<rparr>) small_feed = Inr m"
    using init_small by blast
  from unselected_penalties_zero[OF m] show ?thesis
    using m by (simp add: small_args_def default_args_def)
qed

lemma ebind_Inr: "ebind (Inr x) f = f x"
  by (simp add: ebind_def)

lemma bshape_rev_same: "bshape_rev xs xs = Some xs"
  by (induction xs) (auto simp: bdim_def)

lemma broadcast_shape_same: "broadcast_shape s s = Some s"
  by (simp add: broadcast_shape_def bshape_rev_same)

lemma broadcast_shape_Nil: "broadcast_shape [] s = Some s"
  by (simp add: broadcast_shape_def)

lemma broadcast_shape_b111: "broadcast_shape [B, Suc 0, Suc 0, Suc 0] [B, H, W, C] = Some [B, H, W, C]"
  by (auto simp: broadcast_shape_def bdim_def)

lemma indices_length: "i \<in> set (indices s) \<Longrightarrow> length i = length s"
  by (induction s arbitrary: i) auto

lemma indices_Cons: "b # j \<in> set (indices (d # ds)) \<longleftrightarrow> b < d \<and> j \<in> set (indices ds)"
  by auto

lemma bindex_in_range: "i \<in> set (indices s) \<Longrightarrow> bindex s i = i"
proof (induction s arbitrary: i)
  case Nil
  then show ?case by (simp add: bindex_def)
next
  case (Cons d ds)
  then obtain b j where i: "i = b # j" "b < d" "j \<in> set (indices ds)" by auto
  then have "bindex ds j = j" using Cons.IH by blast
  moreover have "length j = length ds" using i indices_length by blast
  ultimately show ?case using i by (auto simp: bindex_def)
qed

lemma where_small_same_shape:
  assumes "shape bot' = shape top'" and "shape num = shape top'"
  shows "where_small bot' top' num =
     Inr \<lparr>shape = shape top',
          elem = (\<lambda>i. if elem bot' (bindex (shape top') i) < ten_e_minus_9 then 0
                      else elem num (bindex (shape top') i) / elem bot' (bindex (shape top') i))\<rparr>"
  using assms
  by (simp add: where_small_def binop_def scalar_def ones_like_def zeros_like_def tmap_def
        tf_where_def ebind_def broadcast_shape_same broadcast_shape_Nil bindex_def[of "[]"]
        cong: if_cong)

lemma interpolate_shape:
  assumes "shape alpha = [B, 1, 1, 1]" "shape x = [B, H, W, C]" "shape g = [B, H, W, C]"
  shows "\<exists>Gi. interpolate alpha x g = Inr Gi \<and> shape Gi = [B, H, W, C]"
  using assms
  by (simp add: interpolate_def binop_def scalar_def ebind_def broadcast_shape_same
        broadcast_shape_Nil broadcast_shape_b111)

lemma penalized_wgan_lipschitz:
  "penalized_wgan a fd Dr Gi Di L = Inr L' \<Longrightarrow>
     \<exists>top' bot' p. lipschitz_top Dr Di = Inr top' \<and> lipschitz_bot (inputs fd) Gi = Inr bot'
        \<and> diff_penalty bot' top' = Inr p
        \<and> d_lipschitz_penalty_loss L' = lipschitz_penalty a * reduce_mean p"
  by (auto simp: penalized_wgan_def ebind_Inr_iff Let_def)

lemma concat_map_singleton: "concat (map (\<lambda>i. [f i]) xs) = map f xs"
  by (induction xs) auto

lemma sum_list_cong: "(\<And>x. x \<in> set xs \<Longrightarrow> f x = g x) \<Longrightarrow> sum_list (map f xs) = sum_list (map g xs)"
  by (induction xs) auto

lemma lipschitz_top_value:
  assumes "Dr = \<lparr>shape = [B, 1], elem = (\<lambda>i. fr (nth0 i 0))\<rparr>"
      and "Di = \<lparr>shape = [B, 1], elem = (\<lambda>i. fi (nth0 i 0))\<rparr>"
  shows "lipschitz_top Dr Di =
     Inr (squeeze \<lparr>shape = [B, 1],
                   elem = (\<lambda>i. fr (nth0 (bindex [B, 1] i) 0) - fi (nth0 (bindex [B, 1] i) 0))\<rparr>)"
  using assms by (simp add: lipschitz_top_def binop_def ebind_def broadcast_shape_same)

lemma lipschitz_bot_value:
  assumes "shape x = [B, H, W, C]" and "shape Gi = [B, H, W, C]"
  shows "lipschitz_bot x Gi =
     Inr (squeeze \<lparr>shape = [B],
            elem = (\<lambda>i. sqrt (sum_list (map (\<lambda>j. (elem x (bindex [B, H, W, C] (nth0 i 0 # j))
                                         - elem Gi (bindex [B, H, W, C] (nth0 i 0 # j)))\<^sup>2)
                             (indices [H, W, C]))))\<rparr>)"
  using assms
  by (simp add: lipschitz_bot_def l2norm_def reduce_sum_123_def binop_def ebind_def tmap_def
        broadcast_shape_same)

lemma lipschitz_mean:
  assumes x: "shape x = [B, H, W, C]" and Gi: "shape Gi = [B, H, W, C]" and B: "0 < B"
      and Dr: "Dr = \<lparr>shape = [B, 1], elem = (\<lambda>i. fr (nth0 i 0))\<rparr>"
      and Di: "Di = \<lparr>shape = [B, 1], elem = (\<lambda>i. fi (nth0 i 0))\<rparr>"
      and top: "lipschitz_top Dr Di = Inr top'"
      and bot: "lipschitz_bot x Gi = Inr bot'"
      and p: "diff_penalty bot' top' = Inr p"
  shows "reduce_mean p =
     sum_list (map (\<lambda>b. penalty_term (fr b - fi b)
                       (sqrt (sum_list (map (\<lambda>j. (elem x (b # j) - elem Gi (b # j))\<^sup>2)
                                          (indices [H, W, C])))))
                [0..<B]) / real B"
proof -
  let ?T = "\<lparr>shape = [B, 1],
             elem = (\<lambda>i. fr (nth0 (bindex [B, 1] i) 0) - fi (nth0 (bindex [B, 1] i) 0))\<rparr>"
  let ?S = "\<lparr>shape = [B],
             elem = (\<lambda>i. sqrt (sum_list (map (\<lambda>j. (elem x (bindex [B, H, W, C] (nth0 i 0 # j))
                                         - elem Gi (bindex [B, H, W, C] (nth0 i 0 # j)))\<^sup>2)
                             (indices [H, W, C]))))\<rparr>"
  let ?d = "\<lambda>b. sqrt (sum_list (map (\<lambda>j. (elem x (b # j) - elem Gi (b # j))\<^sup>2) (indices [H, W, C])))"
  have top': "top' = squeeze ?T"
    using top lipschitz_top_value[OF Dr Di] by simp
  have bot': "bot' = squeeze ?S"
    using bot lipschitz_bot_value[OF x Gi] by simp
  have shapes: "shape bot' = shape top'"
    by (simp add: top' bot' squeeze_def)
  have pval: "p = \<lparr>shape = shape top',
          elem = (\<lambda>i. if elem bot' (bindex (shape top') i) < ten_e_minus_9 then 0
                      else elem (tmap (\<lambda>v. v\<^sup>2) top') (bindex (shape top') i)
                             / elem bot' (bindex (shape top') i))\<rparr>"
    using p where_small_same_shape[OF shapes, of "tmap (\<lambda>v. v\<^sup>2) top'"]
    by (simp add: diff_penalty_def tmap_def)
  have S_at: "elem ?S [b] = ?d b" if "b < B" for b
  proof -
    have "bindex [B, H, W, C] (b # j) = b # j" if "j \<in> set (indices [H, W, C])" for j
      using that \<open>b < B\<close> by (metis bindex_in_range indices_Cons)
    then have "sum_list (map (\<lambda>j. (elem x (bindex [B, H, W, C] (b # j))
                                         - elem Gi (bindex [B, H, W, C] (b # j)))\<^sup>2)
                             (indices [H, W, C]))
             = sum_list (map (\<lambda>j. (elem x (b # j) - elem Gi (b # j))\<^sup>2) (indices [H, W, C]))"
      by (intro sum_list_cong) simp
    then show ?thesis
      by (simp add: nth0_def del: indices.simps)
  qed
  show ?thesis
  proof (cases "B = 1")
    case True
    have "elem top' [] = fr 0 - fi 0"
      by (simp add: top' squeeze_def True bindex_def nth0_def)
    moreover have "elem bot' [] = ?d 0"
      using S_at[of 0] by (simp add: bot' squeeze_def True)
    ultimately show ?thesis
      by (simp add: pval reduce_mean_def top' squeeze_def True bindex_def tmap_def
            penalty_term_def ten_e_minus_9_def)
  next
    case False
    have t: "elem top' [b] = fr b - fi b" if "b < B" for b
      using that False by (simp add: top' squeeze_def bindex_def nth0_def)
    have b: "elem bot' [b] = ?d b" if "b < B" for b
      using S_at[OF that] False by (simp add: bot' squeeze_def)
    have sh: "shape p = [B]"
      using False by (simp add: pval top' squeeze_def)
    have e: "elem p [b] = penalty_term (fr b - fi b) (?d b)" if "b < B" for b
      using that False t[OF that] b[OF that]
      by (simp add: pval top' squeeze_def bindex_def tmap_def penalty_term_def ten_e_minus_9_def)
    have "sum_list (map (elem p) (indices [B])) = sum_list (map (\<lambda>b. elem p [b]) [0..<B])"
      by (simp add: concat_map_singleton comp_def)
    also have "\<dots> = sum_list (map (\<lambda>b. penalty_term (fr b - fi b) (?d b)) [0..<B])"
      by (rule sum_list_cong) (simp add: e)
    finally show ?thesis
      by (simp add: reduce_mean_def sh)
  qed
qed

lemma discriminator_logits:
  "discriminator a fd x = Inr (D, Dl) \<Longrightarrow>
     Dl = \<lparr>shape = [batch_size a, 1], elem = (\<lambda>i. disc_logit fd x (nth0 i 0))\<rparr>"
  by (auto simp: discriminator_def Let_def split: if_splits)

lemma build_losses_penalized:
  assumes "gan_method a = ''penalized_wgan''" and "build_losses a fd = Inr (L, d)"
      and "interpolate (random_uniform [batch_size a, 1, 1, 1] (alpha_small fd)) (inputs fd)
             (generator a fd) = Inr Gi"
  shows "\<exists>D1 Dr D3 Di. discriminator a fd (inputs fd) = Inr (D1, Dr)
           \<and> discriminator a fd Gi = Inr (D3, Di)
           \<and> penalized_wgan a fd Dr Gi Di initial_losses = Inr L"
  using assms
  by (auto simp: build_losses_def ebind_Inr_iff Let_def split: if_splits prod.splits)

text \<open>
  C3.  Under \<open>penalized_wgan\<close>, on a batch of real images of the shape of the generated
  ones, the Lipschitz penalty loss of the graph is \<open>lipschitz_penalty\<close> times the mean over
  the samples of the penalty term: \<open>diff\<^sup>2 / dist\<close> when \<open>dist \<ge> 1e-8\<close> and 0 when
  \<open>dist < 1e-8\<close>, whatever \<open>diff\<close> is, with \<open>diff\<close> the difference of the real and the
  interpolate logit and \<open>dist\<close> the L2 norm of the difference of the two images.
\<close>

theorem lipschitz_penalty_loss_guarded:
  assumes shp: "shape (inputs fd) = [batch_size a, output_height a, output_width a, c_dim a]"
      and B: "0 < batch_size a"
      and m: "gan_method a = ''penalized_wgan''"
      and ok: "build_losses a fd = Inr (L, d)"
      and Gi: "interpolate (random_uniform [batch_size a, 1, 1, 1] (alpha_small fd)) (inputs fd)
                 (generator a fd) = Inr Gi"
  shows "d_lipschitz_penalty_loss L =
           lipschitz_penalty a *
             (sum_list (map (\<lambda>b. penalty_term (logit_diff fd Gi b) (image_dist a fd Gi b))
                          [0..<batch_size a]) / real (batch_size a))"
proof -
  from build_losses_penalized[OF m ok Gi] obtain D1 Dr D3 Di where
    dr: "discriminator a fd (inputs fd) = Inr (D1, Dr)" and
    di: "discriminator a fd Gi = Inr (D3, Di)" and
    pw: "penalized_wgan a fd Dr Gi Di initial_losses = Inr L"
    by blast
  from penalized_wgan_lipschitz[OF pw] obtain top' bot' p where
    t: "lipschitz_top Dr Di = Inr top'" and b: "lipschitz_bot (inputs fd) Gi = Inr bot'" and
    p: "diff_penalty bot' top' = Inr p" and
    l: "d_lipschitz_penalty_loss L = lipschitz_penalty a * reduce_mean p"
    by blast
  have sG: "shape Gi = [batch_size a, output_height a, output_width a, c_dim a]"
    using interpolate_shape[of "random_uniform [batch_size a, 1, 1, 1] (alpha_small fd)"
            "batch_size a" "inputs fd" "output_height a" "output_width a" "c_dim a" "generator a fd"]
          Gi shp
    by (simp add: random_uniform_def generator_def)
  show ?thesis
    unfolding l logit_diff_def image_dist_def
    using lipschitz_mean[OF shp sG B discriminator_logits[OF dr] discriminator_logits[OF di] t b p]
    by simp
qed

lemma small_interpolate:
  "\<exists>Gi. interpolate (random_uniform [batch_size penalized_args, 1, 1, 1] (alpha_small small_feed))
          (inputs small_feed) (generator penalized_args small_feed) = Inr Gi"
  by (simp add: penalized_args_def small_args_def default_args_def small_feed_def
        generator_def interpolate_def binop_def broadcast_shape_def bdim_def random_uniform_def
        scalar_def ebind_def)

lemma small_penalized: "\<exists>L d. build_losses penalized_args small_feed = Inr (L, d)"
  by (simp add: build_losses_def penalized_args_def small_args_def default_args_def small_feed_def
        truthy_def generator_def discriminator_def ebind_def interpolate_def binop_def
        broadcast_shape_def bdim_def random_uniform_def scalar_def Let_def penalized_wgan_def
        lipschitz_top_def lipschitz_bot_def diff_penalty_def where_small_def l2norm_def
        reduce_sum_123_def squeeze_def tf_where_def tf_gradients_def map_fn_def map_function_def
        reshape_def reduce_mean_0_def row_def
        tmap_def ones_like_def zeros_like_def get_attr_def initial_losses_def upt_rec)

theorem lipschitz_penalty_loss_guarded_witness:
  "\<exists>L d Gi. build_losses penalized_args small_feed = Inr (L, d)
     \<and> interpolate (random_uniform [batch_size penalized_args, 1, 1, 1] (alpha_small small_feed))
          (inputs small_feed) (generator penalized_args small_feed) = Inr Gi
     \<and> shape (inputs small_feed)
          = [batch_size penalized_args, output_height penalized_args,
             output_width penalized_args, c_dim penalized_args]
     \<and> 0 < batch_size penalized_args
     \<and> gan_method penalized_args = ''penalized_wgan''
     \<and> d_lipschitz_penalty_loss L =
           lipschitz_penalty penalized_args *
             (sum_list (map (\<lambda>b. penalty_term (logit_diff small_feed Gi b)
                                   (image_dist penalized_args small_feed Gi b))
                          [0..<batch_size penalized_args]) / real (batch_size penalized_args))"
proof -
  obtain L d where ok: "build_losses penalized_args small_feed = Inr (L, d)"
    using small_penalized by blast
  obtain Gi where Gi:
    "interpolate (random_uniform [batch_size penalized_args, 1, 1, 1] (alpha_small small_feed))
          (inputs small_feed) (generator penalized_args small_feed) = Inr Gi"
    using small_interpolate by blast
  have shp: "shape (inputs small_feed)
          = [batch_size penalized_args, output_height penalized_args,
             output_width penalized_args, c_dim penalized_args]"
    by (simp add: small_feed_def penalized_args_def small_args_def default_args_def)
  have B: "0 < batch_size penalized_args"
    by (simp add: penalized_args_def small_args_def default_args_def)
  have m: "gan_method penalized_args = ''penalized_wgan''"
    by (simp add: penalized_args_def)
  from lipschitz_penalty_loss_guarded[OF shp B m ok Gi] show ?thesis
    using ok Gi shp B m by blast
qed

section \<open>The interpolation of \<open>improved_wgan\<close>\<close>

text \<open>
  C1.  The \<open>improved_wgan\<close> branch draws \<open>alpha\<close> with shape \<open>[batch_size, 1]\<close>, which
  broadcasting aligns with the last two axes of the image batches.  On a batch of two
  images of two pixels, with every real pixel 1, every generated pixel 0 and the draw
  \<open>alpha = [[1/4], [3/4]]\<close>, each interpolate pixel is the coefficient it was built with:
  the two pixels of one sample get 1/4 and 3/4, and both samples get the same pair.  The
  coefficient varies within a sample and not between samples.
\<close>

theorem improved_wgan_alpha_varies_within_sample:
  "\<exists>t. improved_interpolates improved_args small_feed = Inr t
     \<and> shape t = [2, 1, 2, 1]
     \<and> elem t [0, 0, 0, 0] = 1 / 4 \<and> elem t [0, 0, 1, 0] = 3 / 4
     \<and> elem t [1, 0, 0, 0] = 1 / 4 \<and> elem t [1, 0, 1, 0] = 3 / 4"
  by (simp add: improved_interpolates_def improved_args_def small_args_def default_args_def
        small_feed_def generator_def interpolate_def binop_def broadcast_shape_def bdim_def
        random_uniform_def scalar_def ebind_def bindex_def nth0_def Let_def)

lemma idx_in_range: "j < d \<Longrightarrow> (if d = Suc 0 then 0 else j) = (j::nat)"
  by auto

lemma bindex_4_4: "bindex [B, H, W, C] [b, h, w, c]
   = [if B = 1 then 0 else b, if H = 1 then 0 else h, if W = 1 then 0 else w, if C = 1 then 0 else c]"
  by (simp add: bindex_def)

lemma bindex_2_4: "bindex [B, C] [b, h, w, c] = [if B = 1 then 0 else w, if C = 1 then 0 else c]"
  by (simp add: bindex_def)

lemma bindex_2_2: "bindex [B, C] [w, c] = [if B = 1 then 0 else w, if C = 1 then 0 else c]"
  by (simp add: bindex_def)

lemma bindex_Nil: "bindex [] i = []"
  by (simp add: bindex_def)

lemma broadcast_shape_2_4: "broadcast_shape [B, Suc 0] [B', H, B, C] = Some [B', H, B, C]"
  by (auto simp: broadcast_shape_def bdim_def)

text \<open>
  In general, when the width equals the batch size the coefficient of entry \<open>[b, h, w, c]\<close>
  is \<open>alpha[w, 0]\<close>; when the two differ (and neither is 1) the graph cannot be built.
\<close>

lemma improved_general:
  assumes "shape (inputs fd) = [batch_size a, output_height a, output_width a, c_dim a]"
      and "output_width a = batch_size a"
      and "b < batch_size a" "h < output_height a" "w < output_width a" "c < c_dim a"
  shows "\<exists>t. improved_interpolates a fd = Inr t
     \<and> elem t [b, h, w, c] = alpha_unit fd [w, 0] * elem (inputs fd) [b, h, w, c]
             + (1 - alpha_unit fd [w, 0]) * gen fd [b, h, w, c]"
  using assms
  by (simp add: improved_interpolates_def generator_def interpolate_def binop_def
        random_uniform_def scalar_def ebind_def Let_def broadcast_shape_same broadcast_shape_Nil
        broadcast_shape_2_4 bindex_4_4 bindex_2_4 bindex_2_2 bindex_Nil idx_in_range)

lemma improved_mismatch:
  "improved_interpolates (small_args\<lparr>output_width := 3\<rparr>) (small_feed\<lparr>inputs := \<lparr>shape = [2, 1, 3, 1], elem = (\<lambda>_. 1)\<rparr>\<rparr>)
    = Inl (ValueError ''Dimensions must be equal'')"
  by (simp add: improved_interpolates_def small_args_def default_args_def small_feed_def
        generator_def interpolate_def binop_def broadcast_shape_def bdim_def random_uniform_def
        scalar_def ebind_def bindex_def nth0_def Let_def)

section \<open>The two sets of variables\<close>

lemma str_in_pair_append:
  "str_in [a, b] (xs @ ys) \<longleftrightarrow>
     str_in [a, b] xs \<or> str_in [a, b] ys \<or> (xs \<noteq> [] \<and> ys \<noteq> [] \<and> last xs = a \<and> hd ys = b)"
proof (induction xs)
  case Nil
  then show ?case by simp
next
  case (Cons x xs)
  show ?case
  proof (cases xs)
    case Nil
    then show ?thesis by (cases ys) auto
  next
    case (Cons x' xs')
    then show ?thesis using Cons.IH by auto
  qed
qed

lemma apply_gradients_frame:
  "v \<notin> snd ` set gvs \<Longrightarrow> apply_gradients upd gvs st v = st v"
  unfolding apply_gradients_def
  by (induction gvs arbitrary: st) (auto split: prod.splits)

lemma compute_gradients_vars: "snd ` set (compute_gradients grad loss vl st) = set vl"
  by (auto simp: compute_gradients_def image_iff)

lemma d_optim_frame: "v \<notin> set (d_vars tv) \<Longrightarrow> d_optim grad opt_d d_loss tv st v = st v"
  by (simp add: d_optim_def apply_gradients_frame compute_gradients_vars)

lemma g_optim_frame: "v \<notin> set (g_vars tv) \<Longrightarrow> g_optim grad opt_g op gl lp gp tv st v = st v"
  by (simp add: g_optim_def apply_gradients_frame compute_gradients_vars Let_def)

lemma generator_names:
  assumes "\<not> str_in ''d_'' leaf"
  shows "l \<in> set generator_layers \<Longrightarrow>
    str_in ''g_'' (''generator'' @ ''/'' @ snd l @ ''/'' @ leaf @ '':0'')
    \<and> \<not> str_in ''d_'' (''generator'' @ ''/'' @ snd l @ ''/'' @ leaf @ '':0'')"
  using assms
  by (auto simp: generator_layers_def str_in_pair_append)

lemma discriminator_names:
  assumes "\<not> str_in ''g_'' leaf"
  shows "l \<in> set (discriminator_layers bn) \<Longrightarrow>
    str_in ''d_'' (''discriminator'' @ ''/'' @ snd l @ ''/'' @ leaf @ '':0'')
    \<and> \<not> str_in ''g_'' (''discriminator'' @ ''/'' @ snd l @ ''/'' @ leaf @ '':0'')"
  using assms
  by (auto simp: discriminator_layers_def str_in_pair_append split: if_splits)

lemma trainable_variables_cases:
  assumes "v \<in> set (trainable_variables leaves a)"
  obtains l leaf where "l \<in> set generator_layers" "leaf \<in> set (leaves (fst l))"
      "v = ''generator'' @ ''/'' @ snd l @ ''/'' @ leaf @ '':0''"
  | l leaf where "l \<in> set (discriminator_layers (discriminator_batch_norm a))"
      "leaf \<in> set (leaves (fst l))"
      "v = ''discriminator'' @ ''/'' @ snd l @ ''/'' @ leaf @ '':0''"
  using assms unfolding trainable_variables_def layer_variables_def
  by (auto simp del: append_assoc)

lemma vars_disjoint:
  assumes "\<forall>k. \<forall>leaf \<in> set (leaves k). \<not> str_in ''d_'' leaf \<and> \<not> str_in ''g_'' leaf"
      and "v \<in> set (trainable_variables leaves a)"
  shows "str_in ''d_'' v \<noteq> str_in ''g_'' v"
  using assms(2)
proof (cases rule: trainable_variables_cases)
  case (1 l leaf)
  then show ?thesis using generator_names[of leaf l] assms(1) by blast
next
  case (2 l leaf)
  then show ?thesis using discriminator_names[of leaf l] assms(1) by blast
qed

text \<open>
  C4.  Provided the names the layer library gives the variables inside a layer contain
  neither \<open>d_\<close> nor \<open>g_\<close>, the variables selected by \<open>'d_' in var.name\<close> and those selected
  by \<open>'g_' in var.name\<close> are disjoint and together are all trainable variables; applying
  the discriminator optimizer leaves every variable of the second set at its value, and
  applying the generator optimizer leaves every variable of the first set at its value.
\<close>

theorem optimizers_respect_partition:
  assumes "\<forall>k. \<forall>leaf \<in> set (leaves k). \<not> str_in ''d_'' leaf \<and> \<not> str_in ''g_'' leaf"
  shows "set (d_vars (trainable_variables leaves a)) \<inter> set (g_vars (trainable_variables leaves a)) = {}
     \<and> set (d_vars (trainable_variables leaves a)) \<union> set (g_vars (trainable_variables leaves a))
          = set (trainable_variables leaves a)
     \<and> (v \<in> set (g_vars (trainable_variables leaves a)) \<longrightarrow>
          d_optim grad opt_d d_loss (trainable_variables leaves a) st v = st v)
     \<and> (w \<in> set (d_vars (trainable_variables leaves a)) \<longrightarrow>
          g_optim grad opt_g pen g_loss_of lip_of grad_of (trainable_variables leaves a) st w = st w)"
proof -
  let ?tv = "trainable_variables leaves a"
  have dis: "set (d_vars ?tv) \<inter> set (g_vars ?tv) = {}"
    using vars_disjoint[OF assms] by (auto simp: d_vars_def g_vars_def)
  have un: "set (d_vars ?tv) \<union> set (g_vars ?tv) = set ?tv"
    using vars_disjoint[OF assms] by (auto simp: d_vars_def g_vars_def)
  have "d_optim grad opt_d d_loss ?tv st v = st v" if "v \<in> set (g_vars ?tv)"
    using that dis by (intro d_optim_frame) blast
  moreover have "g_optim grad opt_g pen g_loss_of lip_of grad_of ?tv st w = st w"
    if "w \<in> set (d_vars ?tv)"
    using that dis by (intro g_optim_frame) blast
  ultimately show ?thesis using dis un by blast
qed

lemma dcgan_leaves_clean:
  "\<forall>k. \<forall>leaf \<in> set (dcgan_leaves k). \<not> str_in ''d_'' leaf \<and> \<not> str_in ''g_'' leaf"
proof
  fix k show "\<forall>leaf \<in> set (dcgan_leaves k). \<not> str_in ''d_'' leaf \<and> \<not> str_in ''g_'' leaf"
    by (cases k) (simp_all add: dcgan_leaves_def)
qed

lemma example_g_var:
  "''generator/g_h0_lin/Matrix:0'' \<in> set (g_vars (trainable_variables dcgan_leaves default_args))"
  by (simp add: g_vars_def trainable_variables_def layer_variables_def generator_layers_def
        dcgan_leaves_def)

lemma example_d_var:
  "''discriminator/d_h3_lin/bias:0'' \<in> set (d_vars (trainable_variables dcgan_leaves default_args))"
  by (simp add: d_vars_def trainable_variables_def layer_variables_def discriminator_layers_def
        dcgan_leaves_def default_args_def)

theorem optimizers_respect_partition_witness:
  "''generator/g_h0_lin/Matrix:0'' \<in> set (g_vars (trainable_variables dcgan_leaves default_args))
   \<and> ''discriminator/d_h3_lin/bias:0'' \<in> set (d_vars (trainable_variables dcgan_leaves default_args))
   \<and> d_optim (\<lambda>loss v st. 1) (\<lambda>v g x. x - g / 2) (\<lambda>st. 0)
        (trainable_variables dcgan_leaves default_args) (\<lambda>v. 3) ''generator/g_h0_lin/Matrix:0'' = (3::real)
   \<and> g_optim (\<lambda>loss v st. 1) (\<lambda>v g x. x - g / 2) False (\<lambda>st. 0) (\<lambda>st. 0) (\<lambda>st. 0)
        (trainable_variables dcgan_leaves default_args) (\<lambda>v. 3) ''discriminator/d_h3_lin/bias:0'' = (3::real)"
  using optimizers_respect_partition[OF dcgan_leaves_clean, of default_args
          "''generator/g_h0_lin/Matrix:0''" "\<lambda>loss v st. 1" "\<lambda>v g x. x - g / 2" "\<lambda>st. 0" "\<lambda>v. 3::real"
          "''discriminator/d_h3_lin/bias:0''" "\<lambda>v g x. x - g / 2" False "\<lambda>st. 0" "\<lambda>st. 0" "\<lambda>st. 0"]
        dcgan_leaves_clean example_g_var example_d_var
  by blast

lemma d_optim_updates_own:
  "d_optim (\<lambda>loss v st. 1) (\<lambda>v g x. x - g / 2) (\<lambda>st. 0)
        (trainable_variables dcgan_leaves default_args) (\<lambda>v. 3) ''discriminator/d_h3_lin/bias:0'' = (5/2::real)"
  by (simp add: d_optim_def apply_gradients_def compute_gradients_def d_vars_def trainable_variables_def layer_variables_def discriminator_layers_def generator_layers_def
        dcgan_leaves_def default_args_def)

section \<open>The training loop\<close>

lemma pbind_Inr_iff:
  "pbind m f s = (Inr y, s') \<longleftrightarrow> (\<exists>x s1. m s = (Inr x, s1) \<and> f x s1 = (Inr y, s'))"
  by (auto simp: pbind_def split: prod.splits sum.splits)

lemma keeps_pret: "keeps f (pret x)"
  by (simp add: keeps_def pret_def)

lemma keeps_praise: "keeps f (praise e)"
  by (simp add: keeps_def praise_def)

lemma keeps_pget: "keeps f (pget g)"
  by (simp add: keeps_def pget_def)

lemma keeps_pbind: "keeps f m \<Longrightarrow> (\<And>x. keeps f (g x)) \<Longrightarrow> keeps f (pbind m g)"
  unfolding keeps_def pbind_def
  by (auto split: prod.splits sum.splits) (metis snd_conv)+

lemma keeps_pwhen: "keeps f m \<Longrightarrow> keeps f (pwhen b m)"
  by (simp add: pwhen_def keeps_pret)

lemma keeps_try_except: "keeps f m \<Longrightarrow> (\<And>e. keeps f (h e)) \<Longrightarrow> keeps f (try_except m h)"
  unfolding keeps_def try_except_def
  by (auto split: prod.splits sum.splits) (metis snd_conv)+

lemma keeps_for_each: "(\<And>i. keeps f (body i)) \<Longrightarrow> keeps f (for_each body xs)"
proof (induction xs)
  case Nil
  then show ?case by (simp add: keeps_def)
next
  case (Cons i xs)
  have "f (snd (for_each body (i # xs) s)) = f s" for s
  proof (cases "body i s")
    case (Pair r s1)
    have 1: "f s1 = f s" using Cons.prems[of i] Pair by (auto simp: keeps_def dest: spec[of _ s])
    have 2: "f (snd (for_each body xs s1)) = f s1"
      using Cons.IH Cons.prems by (simp add: keeps_def)
    show ?thesis using Pair 1 2 by (cases r) auto
  qed
  then show ?case by (simp add: keeps_def)
qed

lemma ignoresD:
  "ignores S f \<Longrightarrow> event_op e \<notin> Some ` S \<Longrightarrow> f (s\<lparr>trace := trace s @ [e]\<rparr>) = f s"
  by (simp add: ignores_def)

lemma keeps_call: "ignores S f \<Longrightarrow> c \<notin> S \<Longrightarrow> keeps f (call ev c)"
  unfolding keeps_def call_def
  by (auto simp: ignoresD[of S f] image_iff split: sum.splits)

lemma keeps_call_unit: "ignores S f \<Longrightarrow> c \<notin> S \<Longrightarrow> keeps f (call_unit ev c)"
  by (simp add: call_unit_def keeps_pbind keeps_call keeps_pret)

lemma keeps_print: "ignores S f \<Longrightarrow> keeps f (print msg)"
  unfolding keeps_def print_def by (auto simp: ignoresD[of S f])

lemma keeps_pmodify: "(\<And>s. f (g s) = f s) \<Longrightarrow> keeps f (pmodify g)"
  by (simp add: keeps_def pmodify_def)

lemma keepsD: "keeps f m \<Longrightarrow> m s = (r, s') \<Longrightarrow> f s' = f s"
  by (auto simp: keeps_def dest: spec[of _ s])

lemma keeps_save_samples:
  assumes "ignores S f" "RunSampler \<notin> S" "\<And>a b. SaveImages a b \<notin> S"
  shows "keeps f (save_samples ev ep bi)"
  unfolding save_samples_def
  by (intro keeps_try_except keeps_pbind keeps_call[OF assms(1)] keeps_print[OF assms(1)] assms)
     (auto intro: keeps_pbind keeps_print[OF assms(1)] keeps_praise)

lemma keeps_fid_samples:
  assumes "ignores S f" "RunSamplerFid \<notin> S" "ActivationStatistics \<notin> S"
  shows "keeps f (fid_samples ev m)"
  unfolding fid_samples_def Let_def
  by (intro keeps_pbind keeps_print[OF assms(1)])
     (auto intro!: keeps_pbind keeps_for_each keeps_print[OF assms(1)] keeps_praise
         keeps_call_unit[OF assms(1)] assms)

lemma keeps_frechet_or_500:
  assumes "ignores S f" "FrechetDistance \<notin> S"
  shows "keeps f (frechet_or_500 ev)"
  unfolding frechet_or_500_def
  by (intro keeps_try_except keeps_pbind keeps_call[OF assms(1)] assms)
     (auto intro: keeps_pbind keeps_print[OF assms(1)] keeps_praise keeps_pret)

lemma keeps_sample_and_fid:
  assumes "ignores S f"
      and "S \<subseteq> {RunDOptimLogged, RunDOptimExtra, RunGOptim} \<union> range SaveCheckpoint"
  shows "keeps f (sample_and_fid ev m ep bi c)"
proof -
  have n: "RunSampler \<notin> S" "\<And>a b. SaveImages a b \<notin> S" "RunSamplerFid \<notin> S"
    "ActivationStatistics \<notin> S" "FrechetDistance \<notin> S" "\<And>v. AssignFid v \<notin> S" "RunFidSum \<notin> S"
    "\<And>a b. AddSummary a b \<notin> S"
    using assms(2) by auto
  show ?thesis
    unfolding sample_and_fid_def
    by (intro keeps_pbind keeps_save_samples[OF assms(1)] keeps_fid_samples[OF assms(1)]
          keeps_frechet_or_500[OF assms(1)] keeps_print[OF assms(1)] keeps_call[OF assms(1)] n)
       (auto intro!: keeps_call_unit[OF assms(1)] n)
qed

lemma keeps_save_checkpoint:
  assumes "ignores S f" "\<And>c. SaveCheckpoint c \<notin> S"
  shows "keeps f (save_checkpoint ev c)"
  unfolding save_checkpoint_def
  by (intro keeps_pwhen keeps_call_unit[OF assms(1)] assms)

lemma keeps_update_D:
  assumes "ignores S f" "RunDOptimLogged \<notin> S" "RunDOptimExtra \<notin> S"
  shows "keeps f (update_D ev m)"
  unfolding update_D_def
  by (intro keeps_pbind keeps_for_each keeps_call[OF assms(1)] keeps_call_unit[OF assms(1)]
        keeps_pret assms)

lemma keeps_update_G:
  assumes "ignores S f" "RunGOptim \<notin> S" "\<And>a b. AddSummary a b \<notin> S"
      and "\<And>s x n. f (s\<lparr>errG := x, errG_count := n\<rparr>) = f s"
  shows "keeps f (update_G ev cfg c)"
  unfolding update_G_def
  by (intro keeps_pwhen keeps_pbind keeps_call[OF assms(1)] assms)
     (auto intro!: keeps_pbind keeps_pwhen keeps_call_unit[OF assms(1)] keeps_pmodify assms)

lemma train_step_Inr:
  assumes "train_step ev m cfg ep bi s = (Inr (), s')"
  obtains v sm s1 s2 s3 s5 s6 s7 where
    "update_D ev m s = (Inr (v, sm), s1)"
    "pwhen (np_mod (counter s1) 20 = 0) (call_unit ev (AddSummary sm (counter s1))) s1 = (Inr (), s2)"
    "update_G ev cfg (counter s1) s2 = (Inr (), s3)"
    "pwhen (np_mod (counter s1) 100 = 0)
       (pbind (print ''Epoch: [..] [../..] time, d_loss, lip_pen, gradient_pen, g_loss'')
          (\<lambda>_. pmodify reset_accumulators)) (accumulate v s3) = (Inr (), s5)"
    "pwhen (np_mod (counter s1) (fid_eval_steps cfg) = 0)
       (sample_and_fid ev m ep bi (counter s1)) s5 = (Inr (), s6)"
    "save_checkpoint ev (counter s1) s6 = (Inr (), s7)"
    "s' = s7\<lparr>counter := counter s7 + 1\<rparr>"
  using assms
  by (auto simp: train_step_def pbind_Inr_iff pget_def pmodify_def split: prod.splits)

lemma call_Inr:
  "call ev c s = (Inr r, s') \<Longrightarrow> s' = s\<lparr>trace := trace s @ [Called c]\<rparr> \<and> ev (trace s) c = Inr r"
  by (auto simp: call_def split: sum.splits)

lemma call_unit_Inr:
  "call_unit ev c s = (Inr (), s') \<Longrightarrow> s' = s\<lparr>trace := trace s @ [Called c]\<rparr>"
  by (auto simp: call_unit_def pbind_Inr_iff pret_def dest: call_Inr)

lemma extra_updates_count:
  "for_each (\<lambda>i. call_unit ev RunDOptimExtra) xs s = (Inr (), s') \<Longrightarrow>
     d_applications (trace s') = d_applications (trace s) + length xs"
proof (induction xs arbitrary: s)
  case Nil
  then show ?case by simp
next
  case (Cons i xs)
  from Cons.prems obtain s1 where
    1: "call_unit ev RunDOptimExtra s = (Inr (), s1)" and
    2: "for_each (\<lambda>i. call_unit ev RunDOptimExtra) xs s1 = (Inr (), s')"
    by (auto split: prod.splits sum.splits)
  from call_unit_Inr[OF 1] have "d_applications (trace s1) = d_applications (trace s) + 1"
    by (simp add: d_applications_def)
  with Cons.IH[OF 2] show ?case by simp
qed

lemma update_D_Inr:
  assumes "update_D ev m s = (Inr r, s')"
  shows "d_applications (trace s')
           = d_applications (trace s) + 1 + nat (num_discriminator_updates (m_args m) - 1)"
    and "ev (trace s) RunDOptimLogged = Inr r"
proof -
  from assms obtain s1 where
    1: "call ev RunDOptimLogged s = (Inr r, s1)" and
    2: "for_each (\<lambda>i. call_unit ev RunDOptimExtra)
          (py_range (num_discriminator_updates (m_args m) - 1)) s1 = (Inr (), s')"
    by (auto simp: update_D_def pbind_Inr_iff pret_def)
  from call_Inr[OF 1] have "d_applications (trace s1) = d_applications (trace s) + 1"
    by (simp add: d_applications_def)
  with extra_updates_count[OF 2]
  show "d_applications (trace s')
           = d_applications (trace s) + 1 + nat (num_discriminator_updates (m_args m) - 1)"
    by (simp add: py_range_def)
  from call_Inr[OF 1] show "ev (trace s) RunDOptimLogged = Inr r" by simp
qed

lemma ignores_d_applications:
  "ignores {RunDOptimLogged, RunDOptimExtra} (\<lambda>s. d_applications (trace s))"
  unfolding ignores_def d_applications_def
proof (intro allI impI)
  fix s :: train_state and e
  assume "event_op e \<notin> Some ` {RunDOptimLogged, RunDOptimExtra}"
  then show "length (filter (\<lambda>e. e = Called RunDOptimLogged \<or> e = Called RunDOptimExtra)
                (trace (s\<lparr>trace := trace s @ [e]\<rparr>)))
           = length (filter (\<lambda>e. e = Called RunDOptimLogged \<or> e = Called RunDOptimExtra) (trace s))"
    by (cases e) auto
qed

lemma ignores_g_applications: "ignores {RunGOptim} (\<lambda>s. g_applications (trace s))"
  unfolding ignores_def g_applications_def
proof (intro allI impI)
  fix s :: train_state and e
  assume "event_op e \<notin> Some ` {RunGOptim}"
  then show "length (filter (\<lambda>e. e = Called RunGOptim) (trace (s\<lparr>trace := trace s @ [e]\<rparr>)))
           = length (filter (\<lambda>e. e = Called RunGOptim) (trace s))"
    by (cases e) auto
qed

lemma checkpoints_append: "checkpoints (xs @ ys) = checkpoints xs @ checkpoints ys"
  by (induction xs rule: checkpoints.induct) auto

lemma ignores_checkpoints: "ignores (range SaveCheckpoint) (\<lambda>s. checkpoints (trace s))"
  unfolding ignores_def
proof (intro allI impI)
  fix s :: train_state and e
  assume "event_op e \<notin> Some ` range SaveCheckpoint"
  then have "checkpoints [e] = []"
    by (cases "[e]" rule: checkpoints.cases) auto
  then show "checkpoints (trace (s\<lparr>trace := trace s @ [e]\<rparr>)) = checkpoints (trace s)"
    by (simp add: checkpoints_append)
qed

lemma ignores_field: "(\<And>s tr. f (s\<lparr>trace := tr\<rparr>) = f s) \<Longrightarrow> ignores {} f"
  by (simp add: ignores_def)

lemma update_G_Inr:
  assumes "update_G ev cfg c s = (Inr (), s')"
  shows "g_applications (trace s')
           = g_applications (trace s) + (if learning_rate_g cfg > 0 then 1 else 0)"
proof (cases "learning_rate_g cfg > 0")
  case False
  then show ?thesis using assms by (simp add: update_G_def pwhen_def pret_def)
next
  case True
  with assms obtain v sm s1 s2 where
    1: "call ev RunGOptim s = (Inr (v, sm), s1)" and
    2: "pwhen (np_mod c 20 = 0) (call_unit ev (AddSummary sm c)) s1 = (Inr (), s2)" and
    3: "s' = s2\<lparr>errG := errG s2 + v 1, errG_count := errG_count s2 + 1\<rparr>"
    by (auto simp: update_G_def pwhen_def pbind_Inr_iff pmodify_def split: prod.splits)
  have "g_applications (trace s1) = g_applications (trace s) + 1"
    using call_Inr[OF 1] by (simp add: g_applications_def)
  moreover have "g_applications (trace s2) = g_applications (trace s1)"
    using keepsD[OF keeps_pwhen[OF keeps_call_unit[OF ignores_g_applications]] 2] by simp
  ultimately show ?thesis using True 3 by simp
qed

text \<open>
  C5.  With \<open>num_discriminator_updates = k \<ge> 1\<close>, a pass of the loop over batches that
  runs to its end applied the discriminator optimizer exactly \<open>k\<close> times and the generator
  optimizer once if \<open>config.learning_rate_g > 0\<close> and not at all otherwise.  The six
  accumulators of the discriminator's diagnostics received the values fetched by the
  first of the \<open>k\<close> runs (or were reset, at a multiple of 100); the other runs' results are
  dropped.
\<close>

theorem step_applies_optimizers:
  assumes k: "1 \<le> num_discriminator_updates (m_args m)"
      and step: "train_step ev m cfg ep bi s = (Inr (), s')"
  shows "d_applications (trace s')
           = d_applications (trace s) + nat (num_discriminator_updates (m_args m))
       \<and> g_applications (trace s')
           = g_applications (trace s) + (if learning_rate_g cfg > 0 then 1 else 0)
       \<and> (\<exists>v sm. ev (trace s) RunDOptimLogged = Inr (v, sm)
            \<and> diagnostics s' =
                (if np_mod (counter s) 100 = 0 then (0, 0, 0, 0, 0, 0)
                 else (errD_fake s + v 1, errD_real s + v 2, penD_gradient s + v 4,
                       penD_lipschitz s + v 5, esti_slope s + v 6, lipschitz_estimate s + v 7)))"
proof -
  from step obtain v sm s1 s2 s3 s5 s6 s7 where
    D: "update_D ev m s = (Inr (v, sm), s1)" and
    A: "pwhen (np_mod (counter s1) 20 = 0) (call_unit ev (AddSummary sm (counter s1))) s1 = (Inr (), s2)" and
    G: "update_G ev cfg (counter s1) s2 = (Inr (), s3)" and
    P: "pwhen (np_mod (counter s1) 100 = 0)
       (pbind (print ''Epoch: [..] [../..] time, d_loss, lip_pen, gradient_pen, g_loss'')
          (\<lambda>_. pmodify reset_accumulators)) (accumulate v s3) = (Inr (), s5)" and
    F: "pwhen (np_mod (counter s1) (fid_eval_steps cfg) = 0)
       (sample_and_fid ev m ep bi (counter s1)) s5 = (Inr (), s6)" and
    C: "save_checkpoint ev (counter s1) s6 = (Inr (), s7)" and
    s': "s' = s7\<lparr>counter := counter s7 + 1\<rparr>"
    by (rule train_step_Inr)
  note iD = ignores_d_applications and iG = ignores_g_applications
  have iX: "ignores {} diagnostics" and iC: "ignores {} counter"
    by (rule ignores_field; simp add: diagnostics_def)+
  have c1: "counter s1 = counter s"
    using keepsD[OF keeps_update_D[OF iC] D] by simp
  \<comment> \<open>the discriminator optimizer\<close>
  have "d_applications (trace s1)
          = d_applications (trace s) + nat (num_discriminator_updates (m_args m))"
    using update_D_Inr(1)[OF D] k by simp
  moreover have "d_applications (trace s2) = d_applications (trace s1)"
    using keepsD[OF keeps_pwhen[OF keeps_call_unit[OF iD]] A] by simp
  moreover have "d_applications (trace s3) = d_applications (trace s2)"
    using keepsD[OF keeps_update_G[OF iD] G] by simp
  moreover have "d_applications (trace s5) = d_applications (trace s3)"
    using P by (auto simp: pwhen_def pbind_def print_def pmodify_def pret_def accumulate_def
          reset_accumulators_def d_applications_def split: if_splits)
  moreover have "d_applications (trace s6) = d_applications (trace s5)"
    using keepsD[OF keeps_pwhen[OF keeps_sample_and_fid[OF iD]] F] by auto
  moreover have "d_applications (trace s7) = d_applications (trace s6)"
    using keepsD[OF keeps_save_checkpoint[OF iD] C] by simp
  ultimately have 1: "d_applications (trace s')
           = d_applications (trace s) + nat (num_discriminator_updates (m_args m))"
    by (simp add: s')
  \<comment> \<open>the generator optimizer\<close>
  have "g_applications (trace s1) = g_applications (trace s)"
    using keepsD[OF keeps_update_D[OF iG] D] by simp
  moreover have "g_applications (trace s2) = g_applications (trace s1)"
    using keepsD[OF keeps_pwhen[OF keeps_call_unit[OF iG]] A] by simp
  moreover have "g_applications (trace s5) = g_applications (trace s3)"
    using P by (auto simp: pwhen_def pbind_def print_def pmodify_def pret_def accumulate_def
          reset_accumulators_def g_applications_def split: if_splits)
  moreover have "g_applications (trace s6) = g_applications (trace s5)"
    using keepsD[OF keeps_pwhen[OF keeps_sample_and_fid[OF iG]] F] by auto
  moreover have "g_applications (trace s7) = g_applications (trace s6)"
    using keepsD[OF keeps_save_checkpoint[OF iG] C] by simp
  ultimately have 2: "g_applications (trace s')
           = g_applications (trace s) + (if learning_rate_g cfg > 0 then 1 else 0)"
    using update_G_Inr[OF G] by (simp add: s')
  \<comment> \<open>the diagnostics\<close>
  have "diagnostics s1 = diagnostics s"
    using keepsD[OF keeps_update_D[OF iX] D] by simp
  moreover have "diagnostics s2 = diagnostics s1"
    using keepsD[OF keeps_pwhen[OF keeps_call_unit[OF iX]] A] by simp
  moreover have "diagnostics s3 = diagnostics s2"
    using keepsD[OF keeps_update_G[OF iX] G] by (simp add: diagnostics_def)
  moreover have "diagnostics s5 =
       (if np_mod (counter s) 100 = 0 then (0, 0, 0, 0, 0, 0)
        else (errD_fake s3 + v 1, errD_real s3 + v 2, penD_gradient s3 + v 4,
              penD_lipschitz s3 + v 5, esti_slope s3 + v 6, lipschitz_estimate s3 + v 7))"
    using P c1 by (auto simp: pwhen_def pbind_def print_def pmodify_def pret_def accumulate_def
          reset_accumulators_def diagnostics_def split: if_splits)
  moreover have "diagnostics s6 = diagnostics s5"
    using keepsD[OF keeps_pwhen[OF keeps_sample_and_fid[OF iX]] F] by auto
  moreover have "diagnostics s7 = diagnostics s6"
    using keepsD[OF keeps_save_checkpoint[OF iX] C] by simp
  moreover have "diagnostics s' = diagnostics s7"
    by (simp add: s' diagnostics_def)
  ultimately have 3: "diagnostics s' =
       (if np_mod (counter s) 100 = 0 then (0, 0, 0, 0, 0, 0)
        else (errD_fake s + v 1, errD_real s + v 2, penD_gradient s + v 4,
              penD_lipschitz s + v 5, esti_slope s + v 6, lipschitz_estimate s + v 7))"
    by (simp add: diagnostics_def)
  from 1 2 3 update_D_Inr(2)[OF D] show ?thesis by blast
qed

lemma quiet_step:
  "\<exists>s'. train_step quiet_env example_model example_config 0 0
          ((initial_state example_model)\<lparr>counter := 1\<rparr>) = (Inr (), s')"
  by (simp add: train_step_def update_D_def update_G_def save_checkpoint_def pbind_def call_def
        call_unit_def pret_def pwhen_def pget_def pmodify_def np_mod_def py_range_def
        quiet_env_def example_model_def example_config_def default_args_def initial_state_def
        upt_rec)

theorem step_applies_optimizers_witness:
  "\<exists>s'. train_step quiet_env example_model example_config 0 0
          ((initial_state example_model)\<lparr>counter := 1\<rparr>) = (Inr (), s')
     \<and> num_discriminator_updates (m_args example_model) = 3
     \<and> d_applications (trace s') = 3 \<and> g_applications (trace s') = 1"
proof -
  obtain s' where s': "train_step quiet_env example_model example_config 0 0
          ((initial_state example_model)\<lparr>counter := 1\<rparr>) = (Inr (), s')"
    using quiet_step by blast
  have k: "1 \<le> num_discriminator_updates (m_args example_model)"
    by (simp add: example_model_def)
  from step_applies_optimizers[OF k s'] show ?thesis
    using s' by (simp add: example_model_def example_config_def initial_state_def
          d_applications_def g_applications_def)
qed

text \<open>
  C10.  A pass of the loop over batches that runs to its end saved a checkpoint, at the
  step counter, exactly when the counter was not 0 and divisible by 2000, and it saved no
  other; the counter then advanced by one.  At counter 0 nothing is saved although 2000
  divides 0.
\<close>

theorem checkpoint_iff_nonzero_multiple:
  assumes step: "train_step ev m cfg ep bi s = (Inr (), s')"
  shows "checkpoints (trace s') =
           checkpoints (trace s)
             @ (if counter s \<noteq> 0 \<and> counter s mod 2000 = 0 then [counter s] else [])
       \<and> counter s' = counter s + 1"
proof -
  from step obtain v sm s1 s2 s3 s5 s6 s7 where
    D: "update_D ev m s = (Inr (v, sm), s1)" and
    A: "pwhen (np_mod (counter s1) 20 = 0) (call_unit ev (AddSummary sm (counter s1))) s1 = (Inr (), s2)" and
    G: "update_G ev cfg (counter s1) s2 = (Inr (), s3)" and
    P: "pwhen (np_mod (counter s1) 100 = 0)
       (pbind (print ''Epoch: [..] [../..] time, d_loss, lip_pen, gradient_pen, g_loss'')
          (\<lambda>_. pmodify reset_accumulators)) (accumulate v s3) = (Inr (), s5)" and
    F: "pwhen (np_mod (counter s1) (fid_eval_steps cfg) = 0)
       (sample_and_fid ev m ep bi (counter s1)) s5 = (Inr (), s6)" and
    C: "save_checkpoint ev (counter s1) s6 = (Inr (), s7)" and
    s': "s' = s7\<lparr>counter := counter s7 + 1\<rparr>"
    by (rule train_step_Inr)
  note iK = ignores_checkpoints
  have iC: "ignores {} counter"
    by (rule ignores_field) simp
  have c1: "counter s1 = counter s"
    using keepsD[OF keeps_update_D[OF iC] D] by simp
  have "counter s2 = counter s1"
    using keepsD[OF keeps_pwhen[OF keeps_call_unit[OF iC]] A] by simp
  moreover have "counter s3 = counter s2"
    using keepsD[OF keeps_update_G[OF iC] G] by simp
  moreover have "counter s5 = counter s3"
    using P by (auto simp: pwhen_def pbind_def print_def pmodify_def pret_def accumulate_def
          reset_accumulators_def split: if_splits)
  moreover have "counter s6 = counter s5"
    using keepsD[OF keeps_pwhen[OF keeps_sample_and_fid[OF iC]] F] by auto
  moreover have "counter s7 = counter s6"
    using keepsD[OF keeps_save_checkpoint[OF iC] C] by simp
  ultimately have cnt: "counter s' = counter s + 1"
    using c1 by (simp add: s')
  have "checkpoints (trace s1) = checkpoints (trace s)"
    using keepsD[OF keeps_update_D[OF iK] D] by auto
  moreover have "checkpoints (trace s2) = checkpoints (trace s1)"
    using keepsD[OF keeps_pwhen[OF keeps_call_unit[OF iK]] A] by auto
  moreover have "checkpoints (trace s3) = checkpoints (trace s2)"
    using keepsD[OF keeps_update_G[OF iK] G] by auto
  moreover have "checkpoints (trace s5) = checkpoints (trace s3)"
    using P by (auto simp: pwhen_def pbind_def print_def pmodify_def pret_def accumulate_def
          reset_accumulators_def checkpoints_append split: if_splits)
  moreover have "checkpoints (trace s6) = checkpoints (trace s5)"
    using keepsD[OF keeps_pwhen[OF keeps_sample_and_fid[OF iK]] F] by auto
  moreover have "checkpoints (trace s7) =
      checkpoints (trace s6)
        @ (if counter s \<noteq> 0 \<and> counter s mod 2000 = 0 then [counter s] else [])"
    using C c1
    by (auto simp: save_checkpoint_def pwhen_def pret_def np_mod_def checkpoints_append
          dest!: call_unit_Inr split: if_splits)
  ultimately show ?thesis
    using cnt by (simp add: s')
qed

lemma quiet_step_2000:
  "\<exists>s'. train_step quiet_env example_model example_config 0 0
          ((initial_state example_model)\<lparr>counter := 2000\<rparr>) = (Inr (), s')"
  by (simp add: train_step_def update_D_def update_G_def save_checkpoint_def pbind_def call_def
        call_unit_def pret_def pwhen_def pget_def pmodify_def print_def np_mod_def py_range_def
        quiet_env_def example_model_def example_config_def default_args_def initial_state_def
        upt_rec)

lemma quiet_step_0:
  "\<exists>s'. train_step quiet_env example_model example_config 0 0 (initial_state example_model)
          = (Inr (), s')"
  by (simp add: train_step_def update_D_def update_G_def save_checkpoint_def sample_and_fid_def
        save_samples_def fid_samples_def frechet_or_500_def try_except_def pbind_def call_def
        call_unit_def pret_def pwhen_def pget_def pmodify_def print_def np_mod_def py_range_def
        quiet_env_def example_model_def example_config_def default_args_def initial_state_def
        upt_rec)

theorem checkpoint_iff_nonzero_multiple_witness:
  "\<exists>s' t'. train_step quiet_env example_model example_config 0 0
          ((initial_state example_model)\<lparr>counter := 2000\<rparr>) = (Inr (), s')
     \<and> checkpoints (trace s') = [2000] \<and> counter s' = 2001
     \<and> train_step quiet_env example_model example_config 0 0 (initial_state example_model)
          = (Inr (), t')
     \<and> checkpoints (trace t') = [] \<and> counter t' = 1"
proof -
  obtain s' where s': "train_step quiet_env example_model example_config 0 0
          ((initial_state example_model)\<lparr>counter := 2000\<rparr>) = (Inr (), s')"
    using quiet_step_2000 by blast
  obtain t' where t': "train_step quiet_env example_model example_config 0 0
          (initial_state example_model) = (Inr (), t')"
    using quiet_step_0 by blast
  from checkpoint_iff_nonzero_multiple[OF s'] checkpoint_iff_nonzero_multiple[OF t']
  show ?thesis
    using s' t' by (simp add: initial_state_def example_model_def default_args_def)
qed

lemma train_finally_returns:
  assumes stop: "\<And>tr. \<exists>r. ev tr RequestStop = Inr r"
      and join: "\<And>tr. \<exists>r. ev tr JoinThreads = Inr r"
  shows "train_finally ev s = (Inr (), s\<lparr>trace := trace s @ [Called RequestStop, Called JoinThreads]\<rparr>)"
proof -
  obtain r where r: "ev (trace s) RequestStop = Inr r" using stop by blast
  obtain r' where r': "ev (trace s @ [Called RequestStop]) JoinThreads = Inr r'" using join by blast
  show ?thesis
    by (simp add: train_finally_def pbind_def call_def call_unit_def pret_def r r')
qed

text \<open>
  C7.  Once the loop is entered, however it ends (it returns, an interrupt, an exception
  that \<open>except Exception\<close> catches, or one that nothing catches), the last two things
  \<open>train\<close> does are \<open>coord.request_stop()\<close> and \<open>coord.join(threads)\<close>, given that these
  two calls themselves return.  When the loop ends by \<open>KeyboardInterrupt\<close>, the only thing
  between the loop and the finalizer is the call that saves a checkpoint at the current
  step counter.
\<close>

theorem train_always_finalizes:
  assumes stop: "\<And>tr. \<exists>r. ev tr RequestStop = Inr r"
      and join: "\<And>tr. \<exists>r. ev tr JoinThreads = Inr r"
      and pre: "train_prelude ev m cfg (initial_state m) = (Inr batch_nums, s0)"
      and loop: "train_loop ev m cfg batch_nums s0 = (r1, s1)"
  shows "trace (snd (train ev m cfg)) =
           trace s1
           @ (case r1 of
                Inr _ \<Rightarrow> []
              | Inl e \<Rightarrow>
                  if e = KeyboardInterrupt then
                    (case ev (trace s1) (SaveCheckpoint (counter s1)) of
                       Inr _ \<Rightarrow> [Called (SaveCheckpoint (counter s1))]
                     | Inl x \<Rightarrow> [Raised (SaveCheckpoint (counter s1)) x])
                  else if is_Exception e then [Printed (str_exn e)]
                  else [])
           @ [Called RequestStop, Called JoinThreads]"
proof -
  note fin = train_finally_returns[OF stop join]
  have g: "train ev m cfg = train_guarded ev m cfg batch_nums s0"
    by (simp add: train_def pbind_def pre)
  show ?thesis
  proof (cases r1)
    case (Inr u)
    then show ?thesis
      using loop by (simp add: g train_guarded_def try_finally_def try_except_def fin)
  next
    case (Inl e)
    show ?thesis
    proof (cases "e = KeyboardInterrupt")
      case True
      then show ?thesis
        using loop Inl
        by (cases "ev (trace s1) (SaveCheckpoint (counter s1))")
           (simp_all add: g train_guarded_def try_finally_def try_except_def train_handler_def
              pbind_def pget_def call_unit_def call_def pret_def fin)
    next
      case False
      then show ?thesis
        using loop Inl
        by (simp add: g train_guarded_def try_finally_def try_except_def train_handler_def
              print_def praise_def fin)
    qed
  qed
qed

lemma interrupted_prelude:
  "train_prelude interrupting_env example_model example_config (initial_state example_model)
     = (Inr 2, (initial_state example_model)
          \<lparr>trace := [Printed ''load train stats.. '', Called NpLoadStats, Printed ''ok'']\<rparr>)"
  by (simp add: train_prelude_def pbind_def print_def call_def pwhen_def pret_def
        interrupting_env_def example_model_def example_config_def default_args_def
        initial_state_def)

lemma interrupted_loop:
  "train_loop interrupting_env example_model example_config 2
     ((initial_state example_model)
          \<lparr>trace := [Printed ''load train stats.. '', Called NpLoadStats, Printed ''ok'']\<rparr>)
     = (Inl KeyboardInterrupt, (initial_state example_model)
          \<lparr>trace := [Printed ''load train stats.. '', Called NpLoadStats, Printed ''ok'',
                     Called (AssignLearningRateD (2 / 10000)),
                     Called (AssignLearningRateG (2 / 10000)),
                     Raised RunDOptimLogged KeyboardInterrupt]\<rparr>)"
  by (simp add: train_loop_def train_epoch_def train_step_def update_D_def pbind_def call_def
        py_range_def interrupting_env_def example_model_def example_config_def default_args_def
        initial_state_def upt_rec)

theorem train_always_finalizes_witness:
  "trace (snd (train interrupting_env example_model example_config)) =
     [Printed ''load train stats.. '', Called NpLoadStats, Printed ''ok'',
      Called (AssignLearningRateD (2 / 10000)), Called (AssignLearningRateG (2 / 10000)),
      Raised RunDOptimLogged KeyboardInterrupt,
      Called (SaveCheckpoint 0), Called RequestStop, Called JoinThreads]"
proof -
  have stop: "\<And>tr. \<exists>r. interrupting_env tr RequestStop = Inr r"
    and join: "\<And>tr. \<exists>r. interrupting_env tr JoinThreads = Inr r"
    by (simp_all add: interrupting_env_def)
  from train_always_finalizes[OF stop join interrupted_prelude interrupted_loop]
  show ?thesis
    by (simp add: interrupting_env_def initial_state_def example_model_def default_args_def)
qed

lemma returnsD: "returns m \<Longrightarrow> \<exists>x s'. m s = (Inr x, s')"
  by (simp add: returns_def)

lemma returnsD_unit: "returns (m :: (train_state, unit) prog) \<Longrightarrow> \<exists>s'. m s = (Inr (), s')"
  by (auto simp: returns_def dest: spec[of _ s])

lemma returns_pret: "returns (pret x)"
  by (simp add: returns_def pret_def)

lemma returns_print: "returns (print msg)"
  by (simp add: returns_def print_def)

lemma returns_pmodify: "returns (pmodify g)"
  by (simp add: returns_def pmodify_def)

lemma returns_pbind: "returns m \<Longrightarrow> (\<And>x. returns (g x)) \<Longrightarrow> returns (pbind m g)"
  unfolding returns_def pbind_def
proof
  fix s
  assume m: "\<forall>s. \<exists>x s'. m s = (Inr x, s')" and g: "\<And>x. \<forall>s. \<exists>y s'. g x s = (Inr y, s')"
  from m obtain x s1 where 1: "m s = (Inr x, s1)" by blast
  from g[of x] obtain y s' where "g x s1 = (Inr y, s')" by blast
  with 1 show "\<exists>y s'. (case m s of (Inl e, s') \<Rightarrow> (Inl e, s') | (Inr x, s') \<Rightarrow> g x s') = (Inr y, s')"
    by simp
qed

lemma returns_pwhen: "returns m \<Longrightarrow> returns (pwhen b m)"
  by (simp add: pwhen_def returns_pret)

lemma returns_try_except: "returns m \<Longrightarrow> returns (try_except m h)"
  unfolding returns_def try_except_def
proof
  fix s
  assume "\<forall>s. \<exists>x s'. m s = (Inr x, s')"
  then obtain x s1 where "m s = (Inr x, s1)" by blast
  then show "\<exists>x s'. (case m s of (Inl e, s') \<Rightarrow> h e s' | (Inr x, s') \<Rightarrow> (Inr x, s')) = (Inr x, s')"
    by simp
qed

lemma returns_for_each: "(\<And>i. returns (body i)) \<Longrightarrow> returns (for_each body xs)"
proof (induction xs)
  case Nil
  then show ?case by (simp add: returns_def)
next
  case (Cons i xs)
  show ?case
    unfolding returns_def
  proof
    fix s
    from Cons.prems[of i] obtain u s1 where 1: "body i s = (Inr u, s1)"
      by (auto simp: returns_def dest: spec[of _ s])
    from Cons.IH[OF Cons.prems] obtain y s' where "for_each body xs s1 = (Inr y, s')"
      by (auto simp: returns_def dest: spec[of _ s1])
    with 1 show "\<exists>x s'. for_each body (i # xs) s = (Inr x, s')" by simp
  qed
qed

lemma returns_call:
  assumes "\<forall>tr c. c \<noteq> FrechetDistance \<longrightarrow> (\<exists>r. ev tr c = Inr r)" and "c \<noteq> FrechetDistance"
  shows "returns (call ev c)"
  unfolding returns_def call_def
proof
  fix s
  from assms obtain r where "ev (trace s) c = Inr r" by blast
  then show "\<exists>x s'. (case ev (trace s) c of
                 Inl e \<Rightarrow> (Inl e, s\<lparr>trace := trace s @ [Raised c e]\<rparr>)
               | Inr r \<Rightarrow> (Inr r, s\<lparr>trace := trace s @ [Called c]\<rparr>)) = (Inr x, s')"
    by simp
qed

lemma returns_call_unit:
  assumes "\<forall>tr c. c \<noteq> FrechetDistance \<longrightarrow> (\<exists>r. ev tr c = Inr r)" and "c \<noteq> FrechetDistance"
  shows "returns (call_unit ev c)"
  by (simp add: call_unit_def returns_pbind returns_call[OF assms] returns_pret)

lemma returns_update_D:
  assumes "\<forall>tr c. c \<noteq> FrechetDistance \<longrightarrow> (\<exists>r. ev tr c = Inr r)"
  shows "returns (update_D ev m)"
  unfolding update_D_def
  by (intro returns_pbind returns_for_each returns_call[OF assms] returns_call_unit[OF assms]
        returns_pret) simp_all

lemma returns_update_G:
  assumes "\<forall>tr c. c \<noteq> FrechetDistance \<longrightarrow> (\<exists>r. ev tr c = Inr r)"
  shows "returns (update_G ev cfg c)"
  unfolding update_G_def
  by (intro returns_pwhen returns_pbind returns_call[OF assms])
     (auto intro!: returns_pbind returns_pwhen returns_call_unit[OF assms] returns_pmodify)

lemma returns_save_samples:
  assumes "\<forall>tr c. c \<noteq> FrechetDistance \<longrightarrow> (\<exists>r. ev tr c = Inr r)"
  shows "returns (save_samples ev ep bi)"
  unfolding save_samples_def
  by (intro returns_try_except returns_pbind returns_call[OF assms] returns_print) simp_all

lemma returns_fid_samples:
  assumes "\<forall>tr c. c \<noteq> FrechetDistance \<longrightarrow> (\<exists>r. ev tr c = Inr r)"
      and "0 \<le> fid_n_samples (m_args m)" and "fid_sample_batchsize (m_args m) \<noteq> 0"
  shows "returns (fid_samples ev m)"
  unfolding fid_samples_def Let_def using assms(2,3)
  by (intro returns_pbind returns_print)
     (auto intro!: returns_pbind returns_for_each returns_print returns_call_unit[OF assms(1)])

lemma returns_save_checkpoint:
  assumes "\<forall>tr c. c \<noteq> FrechetDistance \<longrightarrow> (\<exists>r. ev tr c = Inr r)"
  shows "returns (save_checkpoint ev c)"
  unfolding save_checkpoint_def
  by (intro returns_pwhen returns_call_unit[OF assms]) simp

lemma frechet_or_500_recovers:
  assumes "ev (trace s) FrechetDistance = Inl e" and "is_Exception e"
  shows "frechet_or_500 ev s =
           (Inr 500, s\<lparr>trace := trace s @ [Raised FrechetDistance e, Printed (str_exn e)]\<rparr>)"
  using assms
  by (simp add: frechet_or_500_def try_except_def pbind_def call_def print_def pret_def)

lemma fid_values_append: "fid_values (xs @ ys) = fid_values xs @ fid_values ys"
  by (induction xs rule: fid_values.induct) auto

lemma ignores_fid_values:
  "ignores (range AssignFid) (\<lambda>s. (fid_values (trace s), counter s))"
  unfolding ignores_def
proof (intro allI impI)
  fix s :: train_state and e
  assume "event_op e \<notin> Some ` range AssignFid"
  then have "fid_values [e] = []"
    by (cases "[e]" rule: fid_values.cases) auto
  then show "(fid_values (trace (s\<lparr>trace := trace s @ [e]\<rparr>)), counter (s\<lparr>trace := trace s @ [e]\<rparr>))
           = (fid_values (trace s), counter s)"
    by (simp add: fid_values_append)
qed

lemma sample_and_fid_recovers:
  assumes others: "\<forall>tr c. c \<noteq> FrechetDistance \<longrightarrow> (\<exists>r. ev tr c = Inr r)"
      and fails: "\<forall>tr. \<exists>e. ev tr FrechetDistance = Inl e \<and> is_Exception e"
      and n: "0 \<le> fid_n_samples (m_args m)" and b: "fid_sample_batchsize (m_args m) \<noteq> 0"
  shows "\<exists>s'. sample_and_fid ev m ep bi c s = (Inr (), s')
           \<and> fid_values (trace s') = fid_values (trace s) @ [500] \<and> counter s' = counter s"
proof -
  let ?f = "\<lambda>s. (fid_values (trace s), counter s)"
  note ig = ignores_fid_values
  obtain s1 where 1: "save_samples ev ep bi s = (Inr (), s1)"
    using returnsD_unit[OF returns_save_samples[OF others]] by blast
  have f1: "?f s1 = ?f s"
    by (rule keepsD[OF keeps_save_samples[OF ig] 1]) auto
  obtain s2 where 2: "fid_samples ev m s1 = (Inr (), s2)"
    using returnsD_unit[OF returns_fid_samples[OF others n b]] by blast
  have f2: "?f s2 = ?f s1"
    by (rule keepsD[OF keeps_fid_samples[OF ig] 2]) auto
  define s3 where "s3 = s2\<lparr>trace := trace s2 @ [Printed ''calculate FID:'']\<rparr>"
  obtain e where e: "ev (trace s3) FrechetDistance = Inl e" "is_Exception e"
    using fails by blast
  define s4 where
    "s4 = s3\<lparr>trace := trace s3 @ [Raised FrechetDistance e, Printed (str_exn e), Printed ''FID'']\<rparr>"
  have "returns (call ev (AssignFid 500))"
    by (rule returns_call[OF others]) simp
  then obtain r5 s5 where 5: "call ev (AssignFid 500) s4 = (Inr r5, s5)"
    using returnsD by blast
  have s5: "s5 = s4\<lparr>trace := trace s4 @ [Called (AssignFid 500)]\<rparr>"
    using call_Inr[OF 5] by simp
  have "returns (call ev RunFidSum)"
    by (rule returns_call[OF others]) simp
  then obtain v sm s6 where 6: "call ev RunFidSum s5 = (Inr (v, sm), s6)"
    using returnsD by (metis surj_pair)
  have f6: "?f s6 = ?f s5"
    by (rule keepsD[OF keeps_call[OF ig] 6]) auto
  have "returns (call_unit ev (AddSummary sm c))"
    by (rule returns_call_unit[OF others]) simp
  then obtain s7 where 7: "call_unit ev (AddSummary sm c) s6 = (Inr (), s7)"
    using returnsD_unit by blast
  have f7: "?f s7 = ?f s6"
    by (rule keepsD[OF keeps_call_unit[OF ig] 7]) auto
  have run: "sample_and_fid ev m ep bi c s = (Inr (), s7)"
    using 1 2 e 5 6 7 frechet_or_500_recovers[of ev s3 e, OF e]
    by (simp add: sample_and_fid_def pbind_def print_def s3_def s4_def)
  have "?f s7 = (fid_values (trace s) @ [500], counter s)"
    using f1 f2 f6 f7 by (simp add: s5 s4_def s3_def fid_values_append)
  with run show ?thesis by simp
qed

text \<open>
  C8.  In an environment where \<open>fid.calculate_frechet_distance\<close> raises an exception
  that \<open>except Exception\<close> catches, every time it is called, and no other call raises, a
  pass of the loop over batches at which the evaluation is due runs to its end: the value
  assigned to the FID variable is 500, no other value is assigned, and the step counter
  advances to the next step.  (\<open>KeyboardInterrupt\<close> and \<open>SystemExit\<close> are not subclasses of
  \<open>Exception\<close>; they leave the loop.)
\<close>

theorem fid_failure_recovered:
  assumes others: "\<forall>tr c. c \<noteq> FrechetDistance \<longrightarrow> (\<exists>r. ev tr c = Inr r)"
      and fails: "\<forall>tr. \<exists>e. ev tr FrechetDistance = Inl e \<and> is_Exception e"
      and n: "0 \<le> fid_n_samples (m_args m)" and b: "fid_sample_batchsize (m_args m) \<noteq> 0"
      and due: "np_mod (counter s) (fid_eval_steps cfg) = 0"
  shows "\<exists>s'. train_step ev m cfg ep bi s = (Inr (), s')
           \<and> fid_values (trace s') = fid_values (trace s) @ [500]
           \<and> counter s' = counter s + 1"
proof -
  let ?f = "\<lambda>s. (fid_values (trace s), counter s)"
  note ig = ignores_fid_values
  obtain v sm s1 where D: "update_D ev m s = (Inr (v, sm), s1)"
    using returnsD[OF returns_update_D[OF others]] by (metis surj_pair)
  have f1: "?f s1 = ?f s"
    by (rule keepsD[OF keeps_update_D[OF ig] D]) auto
  then have c1: "counter s1 = counter s" by simp
  have "returns (pwhen (np_mod (counter s1) 20 = 0) (call_unit ev (AddSummary sm (counter s1))))"
    by (intro returns_pwhen returns_call_unit[OF others]) simp
  then obtain s2 where
    A: "pwhen (np_mod (counter s1) 20 = 0) (call_unit ev (AddSummary sm (counter s1))) s1 = (Inr (), s2)"
    using returnsD_unit by blast
  have f2: "?f s2 = ?f s1"
    by (rule keepsD[OF keeps_pwhen[OF keeps_call_unit[OF ig]] A]) auto
  obtain s3 where G: "update_G ev cfg (counter s1) s2 = (Inr (), s3)"
    using returnsD_unit[OF returns_update_G[OF others]] by blast
  have f3: "?f s3 = ?f s2"
    by (rule keepsD[OF keeps_update_G[OF ig] G]) auto
  obtain s5 where
    P: "pwhen (np_mod (counter s1) 100 = 0)
       (pbind (print ''Epoch: [..] [../..] time, d_loss, lip_pen, gradient_pen, g_loss'')
          (\<lambda>_. pmodify reset_accumulators)) (accumulate v s3) = (Inr (), s5)"
    and f5: "?f s5 = ?f s3"
    by (cases "np_mod (counter s1) 100 = 0")
       (simp_all add: pwhen_def pbind_def print_def pmodify_def pret_def accumulate_def
          reset_accumulators_def fid_values_append)
  obtain s6 where
    F: "sample_and_fid ev m ep bi (counter s1) s5 = (Inr (), s6)" and
    f6: "fid_values (trace s6) = fid_values (trace s5) @ [500]" "counter s6 = counter s5"
    using sample_and_fid_recovers[OF others fails n b] by blast
  obtain s7 where C: "save_checkpoint ev (counter s1) s6 = (Inr (), s7)"
    using returnsD_unit[OF returns_save_checkpoint[OF others]] by blast
  have f7: "?f s7 = ?f s6"
    by (rule keepsD[OF keeps_save_checkpoint[OF ig] C]) auto
  have F': "pwhen (np_mod (counter s1) (fid_eval_steps cfg) = 0)
       (sample_and_fid ev m ep bi (counter s1)) s5 = (Inr (), s6)"
    using F due c1 by (simp add: pwhen_def)
  have "train_step ev m cfg ep bi s = (Inr (), s7\<lparr>counter := counter s7 + 1\<rparr>)"
    using D A G P F' C
    by (simp add: train_step_def pbind_def pget_def pmodify_def)
  moreover have "fid_values (trace s7) = fid_values (trace s) @ [500]" "counter s7 = counter s"
    using f1 f2 f3 f5 f6 f7 by simp_all
  ultimately show ?thesis by simp
qed

theorem fid_failure_recovered_witness:
  "\<exists>s'. train_step failing_fid_env example_model example_config 0 0 (initial_state example_model)
          = (Inr (), s')
     \<and> fid_values (trace s') = [500] \<and> counter s' = 1"
proof -
  have others: "\<forall>tr c. c \<noteq> FrechetDistance \<longrightarrow> (\<exists>r. failing_fid_env tr c = Inr r)"
    and fails: "\<forall>tr. \<exists>e. failing_fid_env tr FrechetDistance = Inl e \<and> is_Exception e"
    by (simp_all add: failing_fid_env_def)
  have n: "0 \<le> fid_n_samples (m_args example_model)"
    and b: "fid_sample_batchsize (m_args example_model) \<noteq> 0"
    and due: "np_mod (counter (initial_state example_model)) (fid_eval_steps example_config) = 0"
    by (simp_all add: example_model_def example_config_def default_args_def initial_state_def
          np_mod_def)
  from fid_failure_recovered[OF others fails n b due, of 0 0] show ?thesis
    by (simp add: initial_state_def example_model_def default_args_def)
qed

section \<open>Complements\<close>

text \<open>
  The batch of two images is accepted by \<open>__init__\<close> under \<open>improved_wgan\<close>: the width
  equals the batch size, so the misaligned \<open>alpha\<close> broadcasts without an error.
\<close>

lemma improved_init_small: "\<exists>m. DCGAN_init improved_args small_feed = Inr m"
  by (simp add: DCGAN_init_def check_args_def gan_methods_def build_model_def
        adjust_fid_n_samples_def build_losses_def improved_args_def small_args_def
        default_args_def small_feed_def truthy_def generator_def discriminator_def ebind_def
        interpolate_def binop_def broadcast_shape_def bdim_def random_uniform_def scalar_def
        Let_def improved_wgan_def improved_interpolates_def l2norm_def reduce_sum_123_def
        squeeze_def tf_gradients_def tmap_def get_attr_def initial_losses_def)

text \<open>
  The \<open>penalized_wgan\<close> interpolates, built from \<open>alpha\<close> of shape \<open>[batch_size, 1, 1, 1]\<close>,
  use one coefficient per sample.
\<close>

lemma penalized_interpolate_per_sample:
  assumes "shape (inputs fd) = [batch_size a, output_height a, output_width a, c_dim a]"
      and "b < batch_size a" "h < output_height a" "w < output_width a" "c < c_dim a"
  shows "\<exists>Gi. interpolate (random_uniform [batch_size a, 1, 1, 1] (alpha_small fd)) (inputs fd)
                (generator a fd) = Inr Gi
     \<and> elem Gi [b, h, w, c] = alpha_small fd [b, 0, 0, 0] * elem (inputs fd) [b, h, w, c]
             + (1 - alpha_small fd [b, 0, 0, 0]) * gen fd [b, h, w, c]"
  using assms
  by (simp add: generator_def interpolate_def binop_def random_uniform_def scalar_def ebind_def
        broadcast_shape_same broadcast_shape_Nil broadcast_shape_b111 bindex_4_4 bindex_Nil
        idx_in_range)

text \<open>
  What \<open>except Exception\<close> does not match leaves the FID block as it came: an interrupt
  during the distance computation is not replaced by 500.
\<close>

lemma frechet_interrupt_propagates:
  assumes "ev (trace s) FrechetDistance = Inl e" and "\<not> is_Exception e"
  shows "frechet_or_500 ev s = (Inl e, s\<lparr>trace := trace s @ [Raised FrechetDistance e]\<rparr>)"
  using assms
  by (simp add: frechet_or_500_def try_except_def pbind_def call_def praise_def)

end
